theory Spec2Isabelle
  imports Complex_Main "HOL-Library.Word"
begin

section \<open>Python values and errors\<close>

text \<open>
  The steerable-pyramid code is Python over NumPy and PyTorch. Floating-point numbers are
  read as real (and complex) numbers; Python's unbounded integers are \<open>int\<close>. Every
  \<^verbatim>\<open>assert\<close>, \<^verbatim>\<open>raise\<close> and failing library call of the source is a value
  \<open>Inl e\<close> of the result type \<open>py_error + 'a\<close>.
\<close>

datatype py_error =
    AssertionError string
  | PyException string
  | IndexError
  | TypeError
  | ValueError
  | OverflowError
  | AttributeError string

definition bind_err :: "py_error + 'a \<Rightarrow> ('a \<Rightarrow> py_error + 'b) \<Rightarrow> py_error + 'b" where
  "bind_err r f = (case r of Inl e \<Rightarrow> Inl e | Inr v \<Rightarrow> f v)"

section \<open>steerable/fft.py: the half-flip helpers on batched tensors\<close>

text \<open>
  A tensor of spectra has shape \<open>[N, H, W, 2]\<close>. It is modelled by its shape together with
  its entries, nested along the four axes. \<open>tensor_ok\<close> says that the entries are laid out
  as the shape announces; every tensor PyTorch builds satisfies it.
\<close>

record tensor4 =
  shape :: "nat list"
  entries :: "real list list list list"

definition tensor_ok :: "tensor4 \<Rightarrow> bool" where
  "tensor_ok x =
     (length (shape x) = 4 \<and> length (entries x) = shape x ! 0 \<and>
      (\<forall>a \<in> set (entries x). length a = shape x ! 1 \<and>
        (\<forall>b \<in> set a. length b = shape x ! 2 \<and>
          (\<forall>c \<in> set b. length c = shape x ! 3))))"

text \<open>
  \<^verbatim>\<open>x.narrow(axis, start, length)\<close>: the slice of \<open>length\<close> sub-tensors from \<open>start\<close>
  along \<open>axis\<close>; \<^verbatim>\<open>torch.chunk\<close> returns such slices.
\<close>

definition narrow :: "tensor4 \<Rightarrow> nat \<Rightarrow> nat \<Rightarrow> nat \<Rightarrow> tensor4" where
  "narrow x axis start len =
     \<lparr> shape = (shape x)[axis := len],
       entries =
         (if axis = 0 then take len (drop start (entries x))
          else if axis = 1 then map (\<lambda>a. take len (drop start a)) (entries x)
          else if axis = 2 then map (map (\<lambda>b. take len (drop start b))) (entries x)
          else map (map (map (\<lambda>c. take len (drop start c)))) (entries x)) \<rparr>"

text \<open>
  \<^verbatim>\<open>torch.chunk(x, chunks, axis)\<close> cuts the axis into pieces of
  \<open>\<lceil>n / chunks\<rceil>\<close> sub-tensors, the last piece shorter when the size is not a multiple;
  it returns fewer than \<open>chunks\<close> pieces when the axis is too short, and \<open>chunks\<close> empty
  pieces on an axis of size 0.
\<close>

definition chunk :: "tensor4 \<Rightarrow> nat \<Rightarrow> nat \<Rightarrow> tensor4 list" where
  "chunk x chunks axis =
     (let n = shape x ! axis; split_size = (n + chunks - 1) div chunks in
      if split_size = 0 then replicate chunks (narrow x axis 0 0)
      else map (\<lambda>i. narrow x axis (i * split_size) (min split_size (n - i * split_size)))
             [0 ..< max ((n + split_size - 1) div split_size) 1])"

text \<open>\<^verbatim>\<open>torch.cat((a, b), dim=axis)\<close>: the sub-tensors of \<open>a\<close> followed by those of \<open>b\<close>.\<close>

definition cat :: "tensor4 \<Rightarrow> tensor4 \<Rightarrow> nat \<Rightarrow> tensor4" where
  "cat a b axis =
     \<lparr> shape = (shape a)[axis := shape a ! axis + shape b ! axis],
       entries =
         (if axis = 0 then entries a @ entries b
          else if axis = 1 then map2 (@) (entries a) (entries b)
          else if axis = 2 then map2 (map2 (@)) (entries a) (entries b)
          else map2 (map2 (map2 (@))) (entries a) (entries b)) \<rparr>"

text \<open>
  \<^verbatim>\<open>
  def batch_flip_halves(x, axis):
      split = torch.chunk(x, 2, axis)
      return torch.cat((split[1], split[0]), dim=axis)
  \<close>
  \<^verbatim>\<open>split[1]\<close> raises IndexError when \<^verbatim>\<open>chunk\<close> returned a single piece.
\<close>

definition batch_flip_halves :: "tensor4 \<Rightarrow> nat \<Rightarrow> py_error + tensor4" where
  "batch_flip_halves x axis =
     (let split = chunk x 2 axis in
      if length split < 2 then Inl IndexError
      else Inr (cat (split ! 1) (split ! 0) axis))"

definition batch_fftshift2d :: "tensor4 \<Rightarrow> py_error + tensor4" where
  "batch_fftshift2d x =
     (if length (shape x) \<noteq> 4 then Inl (AssertionError ''input tensor must be of shape [N,H,W,2]'')
      else if last (shape x) \<noteq> 2 then Inl (AssertionError ''input tensor must be of shape [N,H,W,2]'')
      else bind_err (batch_flip_halves x 1) (\<lambda>x. batch_flip_halves x 2))"

definition batch_ifftshift2d :: "tensor4 \<Rightarrow> py_error + tensor4" where
  "batch_ifftshift2d x =
     (if length (shape x) \<noteq> 4 then Inl (AssertionError ''input tensor must be of shape [N,H,W,2]'')
      else if last (shape x) \<noteq> 2 then Inl (AssertionError ''input tensor must be of shape [N,H,W,2]'')
      else bind_err (batch_flip_halves x 2) (\<lambda>x. batch_flip_halves x 1))"

section \<open>NumPy arrays and the operations the pyramid uses\<close>

text \<open>
  A two-dimensional array is the list of its rows. \<open>is_array r c a\<close> says that \<open>a\<close> has
  \<open>r\<close> rows of \<open>c\<close> entries each. An array without rows is \<open>[]\<close>; its column count is
  not kept and reads as 0.
\<close>

definition np_shape :: "'a list list \<Rightarrow> nat \<times> nat" where
  "np_shape a = (length a, if a = [] then 0 else length (hd a))"

definition is_array :: "nat \<Rightarrow> nat \<Rightarrow> 'a list list \<Rightarrow> bool" where
  "is_array r c a = (length a = r \<and> (\<forall>row \<in> set a. length row = c))"

definition zeros :: "nat \<times> nat \<Rightarrow> complex list list" where
  "zeros dims = replicate (fst dims) (replicate (snd dims) 0)"

text \<open>
  Elementwise operations broadcast: two axis lengths are compatible when they are equal
  or one of them is 1, and NumPy raises ValueError otherwise.
\<close>

definition broadcast_dim :: "nat \<Rightarrow> nat \<Rightarrow> py_error + nat" where
  "broadcast_dim m n =
     (if m = n then Inr m else if m = 1 then Inr n else if n = 1 then Inr m else Inl ValueError)"

definition broadcast2 ::
    "('a \<Rightarrow> 'b \<Rightarrow> 'c) \<Rightarrow> 'a list list \<Rightarrow> 'b list list \<Rightarrow> py_error + 'c list list" where
  "broadcast2 f a b =
     (let ra = fst (np_shape a); ca = snd (np_shape a);
          rb = fst (np_shape b); cb = snd (np_shape b) in
      bind_err (broadcast_dim ra rb) (\<lambda>r.
      bind_err (broadcast_dim ca cb) (\<lambda>c.
        Inr (map (\<lambda>i. map (\<lambda>j.
               f (a ! (if ra = 1 then 0 else i) ! (if ca = 1 then 0 else j))
                 (b ! (if rb = 1 then 0 else i) ! (if cb = 1 then 0 else j)))
               [0..<c]) [0..<r]))))"

definition times_mask :: "complex list list \<Rightarrow> real list list \<Rightarrow> py_error + complex list list" where
  "times_mask a msk = broadcast2 (\<lambda>z m. z * complex_of_real m) a msk"

definition plus_array :: "complex list list \<Rightarrow> complex list list \<Rightarrow> py_error + complex list list" where
  "plus_array a b = broadcast2 (+) a b"

definition as_complex :: "real list list \<Rightarrow> complex list list" where
  "as_complex a = map (map complex_of_real) a"

definition real_part :: "complex list list \<Rightarrow> real list list" where
  "real_part a = map (map Re) a"

text \<open>
  \<^verbatim>\<open>np.fft.fft2\<close> and \<^verbatim>\<open>np.fft.ifft2\<close>: the two-dimensional discrete Fourier transform
  and its inverse, as NumPy documents them. Both raise ValueError on an axis of length 0.
\<close>

definition dft2 :: "real \<Rightarrow> complex list list \<Rightarrow> complex list list" where
  "dft2 s a =
     (let r = fst (np_shape a); c = snd (np_shape a) in
      map (\<lambda>k. map (\<lambda>l.
          (\<Sum>m\<leftarrow>[0..<r]. \<Sum>n\<leftarrow>[0..<c].
             a ! m ! n * cis (s * 2 * pi * (real k * real m / real r + real l * real n / real c))))
        [0..<c]) [0..<r])"

definition fft2 :: "complex list list \<Rightarrow> py_error + complex list list" where
  "fft2 a =
     (if fst (np_shape a) = 0 \<or> snd (np_shape a) = 0 then Inl ValueError
      else Inr (dft2 (- 1) a))"

definition ifft2 :: "complex list list \<Rightarrow> py_error + complex list list" where
  "ifft2 a =
     (if fst (np_shape a) = 0 \<or> snd (np_shape a) = 0 then Inl ValueError
      else Inr (map (map (\<lambda>z. z / of_nat (fst (np_shape a) * snd (np_shape a)))) (dft2 1 a)))"

text \<open>
  \<^verbatim>\<open>np.roll(xs, shift)\<close> on one axis; \<^verbatim>\<open>fftshift\<close> rolls every axis by \<open>n div 2\<close>,
  \<^verbatim>\<open>ifftshift\<close> by \<open>- (n div 2)\<close>.
\<close>

definition roll :: "int \<Rightarrow> 'a list \<Rightarrow> 'a list" where
  "roll shift xs =
     (if xs = [] then []
      else let k = length xs - nat (shift mod int (length xs)) in drop k xs @ take k xs)"

definition fftshift :: "'a list list \<Rightarrow> 'a list list" where
  "fftshift a =
     roll (int (fst (np_shape a) div 2)) (map (roll (int (snd (np_shape a) div 2))) a)"

definition ifftshift :: "'a list list \<Rightarrow> 'a list list" where
  "ifftshift a =
     roll (- int (fst (np_shape a) div 2)) (map (roll (- int (snd (np_shape a) div 2))) a)"

text \<open>
  Python slices \<^verbatim>\<open>xs[start:stop]\<close>: a negative index counts from the end, and both ends
  are clipped to the list. \<open>slice2\<close> is \<^verbatim>\<open>a[s0:e0, s1:e1]\<close>.
\<close>

definition clip_index :: "int \<Rightarrow> nat \<Rightarrow> nat" where
  "clip_index i n = (if i < 0 then nat (max (i + int n) 0) else min (nat i) n)"

definition py_slice :: "int \<Rightarrow> int \<Rightarrow> 'a list \<Rightarrow> 'a list" where
  "py_slice start stop xs =
     (let s = clip_index start (length xs); e = clip_index stop (length xs) in
      take (e - s) (drop s xs))"

definition slice2 :: "int \<times> int \<Rightarrow> int \<times> int \<Rightarrow> 'a list list \<Rightarrow> 'a list list" where
  "slice2 rows cols a = map (py_slice (fst cols) (snd cols)) (py_slice (fst rows) (snd rows) a)"

text \<open>
  \<^verbatim>\<open>res[s0:e0, s1:e1] = v\<close>: \<open>v\<close> is broadcast to the shape of the slice (ValueError when
  it does not fit) and written over it.
\<close>

definition assign_slice2 ::
    "complex list list \<Rightarrow> int \<times> int \<Rightarrow> int \<times> int \<Rightarrow> complex list list \<Rightarrow> py_error + complex list list" where
  "assign_slice2 res rows cols v =
     (let R = fst (np_shape res); C = snd (np_shape res);
          s0 = clip_index (fst rows) R; e0 = clip_index (snd rows) R;
          s1 = clip_index (fst cols) C; e1 = clip_index (snd cols) C;
          rv = fst (np_shape v); cv = snd (np_shape v) in
      if (rv \<noteq> e0 - s0 \<and> rv \<noteq> 1) \<or> (cv \<noteq> e1 - s1 \<and> cv \<noteq> 1) then Inl ValueError
      else Inr (map (\<lambda>i. map (\<lambda>j.
             if s0 \<le> i \<and> i < e0 \<and> s1 \<le> j \<and> j < e1
             then v ! (if rv = 1 then 0 else i - s0) ! (if cv = 1 then 0 else j - s1)
             else res ! i ! j) [0..<C]) [0..<R]))"

text \<open>
  \<^verbatim>\<open>x.astype(int)\<close> converts a float64 to int64 by the C cast, which discards the
  fractional part: it truncates toward zero. When the truncated value does not fit in 64
  bits the C cast has no defined result; the conversion instruction of x86-64 then
  returns \<open>-2\<^sup>6\<^sup>3\<close>, and that is the value taken here.
\<close>

definition astype_int :: "real \<Rightarrow> int" where
  "astype_int x =
     (let t = (if 0 \<le> x then \<lfloor>x\<rfloor> else \<lceil>x\<rceil>) in
      if - (2 ^ 63) \<le> t \<and> t < 2 ^ 63 then t else - (2 ^ 63))"

text \<open>\<^verbatim>\<open>a.real.astype(int)\<close> on a two-dimensional complex array.\<close>

definition real_astype_int :: "complex list list \<Rightarrow> int list list" where
  "real_astype_int a = map (map astype_int) (real_part a)"

text \<open>A loop that may raise: the first error ends it.\<close>

fun map_err :: "('a \<Rightarrow> py_error + 'b) \<Rightarrow> 'a list \<Rightarrow> py_error + 'b list" where
  "map_err f [] = Inr []"
| "map_err f (x # xs) = bind_err (f x) (\<lambda>y. bind_err (map_err f xs) (\<lambda>ys. Inr (y # ys)))"

fun fold_err :: "('a \<Rightarrow> 'b \<Rightarrow> py_error + 'b) \<Rightarrow> 'a list \<Rightarrow> 'b \<Rightarrow> py_error + 'b" where
  "fold_err f [] acc = Inr acc"
| "fold_err f (x # xs) acc = bind_err (f x acc) (\<lambda>acc'. fold_err f xs acc')"

section \<open>The collaborator steerable.math_utils\<close>

text \<open>
  Modelled from the spec: the module \<^verbatim>\<open>steerable/math_utils.py\<close> (\<^verbatim>\<open>prepare_grid\<close>,
  \<^verbatim>\<open>rcosFn\<close>, \<^verbatim>\<open>pointOp\<close>) is not among the sources. The spec gives its contract:
  \<^verbatim>\<open>prepare_grid(height, width)\<close> returns two real arrays of shape (height, width);
  \<^verbatim>\<open>rcosFn\<close> returns a lookup table (X, Y); \<^verbatim>\<open>pointOp(grid, Y, X)\<close> evaluates the
  interpolation of the table at every value of the grid. The numbers themselves are
  parameters: the value of each grid at each point, the table, and the interpolant.
\<close>

record math_utils =
  grid_log_rad :: "nat \<Rightarrow> nat \<Rightarrow> nat \<Rightarrow> nat \<Rightarrow> real"
  grid_angle :: "nat \<Rightarrow> nat \<Rightarrow> nat \<Rightarrow> nat \<Rightarrow> real"
  rcosFn :: "real \<Rightarrow> real \<Rightarrow> real list \<times> real list"
  interp :: "real list \<Rightarrow> real list \<Rightarrow> real \<Rightarrow> real"

definition prepare_grid :: "math_utils \<Rightarrow> nat \<Rightarrow> nat \<Rightarrow> real list list \<times> real list list" where
  "prepare_grid mu m n =
     (map (\<lambda>i. map (\<lambda>j. grid_log_rad mu m n i j) [0..<n]) [0..<m],
      map (\<lambda>i. map (\<lambda>j. grid_angle mu m n i j) [0..<n]) [0..<m])"

definition pointOp :: "math_utils \<Rightarrow> real list list \<Rightarrow> real list \<Rightarrow> real list \<Rightarrow> real list list" where
  "pointOp mu im Ylut Xlut = map (map (interp mu Xlut Ylut)) im"

text \<open>
  An instance of the collaborator for running the model on concrete inputs: flat grids, a
  two-point table, and a lookup that answers 1 everywhere.
\<close>

definition flat_utils :: math_utils where
  "flat_utils =
     \<lparr> grid_log_rad = (\<lambda>m n i j. 0), grid_angle = (\<lambda>m n i j. 0),
       rcosFn = (\<lambda>width position. ([- 1, 0], [0, 1])),
       interp = (\<lambda>Xlut Ylut x. 1) \<rparr>"

section \<open>steerable/SCFpyr_NumPy.py\<close>

subsection \<open>The pyramid object\<close>

text \<open>
  A level of the coefficient list is a real array (high-pass, low-pass) or the list of the
  complex oriented subbands of one scale.
\<close>

datatype level = Real_array "real list list" | Orientations "complex list list list"

text \<open>
  \<^verbatim>\<open>
  class ComplexSteerablePyramid():
      def __init__(self, height, nbands):
          self._height = height
          self._nbands = nbands
          self._coeff = [None]*self._height
  \<close>
\<close>

record ComplexSteerablePyramid =
  pyr_height :: int
  pyr_nbands :: int
  pyr_coeff :: "level option list"

definition new_pyramid :: "int \<Rightarrow> int \<Rightarrow> ComplexSteerablePyramid" where
  "new_pyramid h nb = \<lparr> pyr_height = h, pyr_nbands = nb, pyr_coeff = replicate (nat h) None \<rparr>"

text \<open>Python list indexing: a negative index counts from the end, IndexError out of range.\<close>

definition py_index :: "'a list \<Rightarrow> int \<Rightarrow> py_error + nat" where
  "py_index xs i =
     (let n = int (length xs); j = (if i < 0 then i + n else i) in
      if 0 \<le> j \<and> j < n then Inr (nat j) else Inl IndexError)"

definition set_level :: "ComplexSteerablePyramid \<Rightarrow> int \<Rightarrow> level \<Rightarrow> py_error + ComplexSteerablePyramid" where
  "set_level pyr lvl coeff =
     bind_err (py_index (pyr_coeff pyr) lvl) (\<lambda>k.
       Inr (pyr \<lparr> pyr_coeff := (pyr_coeff pyr)[k := Some coeff] \<rparr>))"

definition get_level :: "ComplexSteerablePyramid \<Rightarrow> int \<Rightarrow> py_error + level option" where
  "get_level pyr lvl = bind_err (py_index (pyr_coeff pyr) lvl) (\<lambda>k. Inr (pyr_coeff pyr ! k))"

text \<open>
  \<^verbatim>\<open>x.shape\<close> of a level: an array has one, a list and \<^verbatim>\<open>None\<close> have not. \<^verbatim>\<open>x[0].shape\<close>
  is the shape of the first subband of a list, and of the first row of an array.
\<close>

definition level_shape :: "level option \<Rightarrow> py_error + nat list" where
  "level_shape l =
     (case l of
        Some (Real_array a) \<Rightarrow> Inr [fst (np_shape a), snd (np_shape a)]
      | _ \<Rightarrow> Inl (AttributeError ''shape''))"

definition first_shape :: "level option \<Rightarrow> py_error + nat list" where
  "first_shape l =
     (case l of
        None \<Rightarrow> Inl TypeError
      | Some (Real_array a) \<Rightarrow> (if a = [] then Inl IndexError else Inr [length (a ! 0)])
      | Some (Orientations bs) \<Rightarrow>
          (if bs = [] then Inl IndexError
           else Inr [fst (np_shape (bs ! 0)), snd (np_shape (bs ! 0))]))"

text \<open>
  \<^verbatim>\<open>
  def level_size(self, level):
      if level == 0:
          return self._coeff[level].shape
      elif level == self._nbands:
          return self._coeff[level][0].shape
      return self._coeff[level][0].shape
  \<close>
\<close>

definition level_size :: "ComplexSteerablePyramid \<Rightarrow> int \<Rightarrow> py_error + nat list" where
  "level_size pyr lvl =
     (if lvl = 0 then bind_err (get_level pyr lvl) level_shape
      else if lvl = pyr_nbands pyr then bind_err (get_level pyr lvl) first_shape
      else bind_err (get_level pyr lvl) first_shape)"

subsection \<open>The configuration and its cached tables\<close>

record SCFpyr_NumPy =
  nbands :: int
  height :: int
  scale_factor :: real

definition lutsize :: int where
  "lutsize = 1024"

text \<open>\<^verbatim>\<open>Xcosn = pi * array(range(-(2*lutsize+1), lutsize+2)) / lutsize\<close>\<close>

definition Xcosn :: "real list" where
  "Xcosn = map (\<lambda>k. pi * real_of_int k / real_of_int lutsize) [- (2 * lutsize + 1) .. lutsize + 1]"

text \<open>Python's \<^verbatim>\<open>x % y\<close> on floats.\<close>

definition py_mod :: "real \<Rightarrow> real \<Rightarrow> real" where
  "py_mod x y = x - y * real_of_int \<lfloor>x / y\<rfloor>"

text \<open>\<^verbatim>\<open>alpha = (Xcosn + pi) % (2*pi) - pi\<close>\<close>

definition alpha :: "real list" where
  "alpha = map (\<lambda>x. py_mod (x + pi) (2 * pi) - pi) Xcosn"

text \<open>
  \<^verbatim>\<open>np.power(2, 2*order)\<close> on integers: ValueError for a negative exponent, and the
  result wraps around in the 64-bit default integer. \<^verbatim>\<open>factorial\<close> (SciPy) is 0 on
  negative arguments.
  \<^verbatim>\<open>
  order = self.nbands - 1
  const = np.power(2, 2*order) * np.square(factorial(order)) / (self.nbands * factorial(2*order))
  \<close>
\<close>

definition np_power_int :: "int \<Rightarrow> int \<Rightarrow> py_error + int" where
  "np_power_int b e =
     (if e < 0 then Inl ValueError else Inr (sint (word_of_int (b ^ nat e) :: 64 word)))"

definition factorial :: "int \<Rightarrow> real" where
  "factorial n = (if n < 0 then 0 else fact (nat n))"

definition angular_const :: "int \<Rightarrow> py_error + real" where
  "angular_const nb =
     (let order = nb - 1 in
      bind_err (np_power_int 2 (2 * order)) (\<lambda>p.
        Inr (real_of_int p * (factorial order)\<^sup>2 / (real_of_int nb * factorial (2 * order)))))"

text \<open>
  The angular profile of the builder,
  \<^verbatim>\<open>Ycosn = 2*np.sqrt(const) * np.power(np.cos(self.Xcosn), order) * (np.abs(self.alpha) < np.pi/2)\<close>
  and of the reconstructor,
  \<^verbatim>\<open>Ycosn = np.sqrt(const) * np.power(np.cos(Xcosn), order)\<close>,
  and the constant complex factors \<^verbatim>\<open>np.power(np.complex(0, -1), self.nbands - 1)\<close> and
  \<^verbatim>\<open>np.power(np.complex(0, 1), order)\<close> they multiply each subband with.
\<close>

definition Ycosn_build :: "int \<Rightarrow> real \<Rightarrow> real list" where
  "Ycosn_build order cnst =
     map2 (\<lambda>x a. 2 * sqrt cnst * cos x ^ nat order * (if \<bar>a\<bar> < pi / 2 then 1 else 0)) Xcosn alpha"

definition Ycosn_reconstruct :: "int \<Rightarrow> real \<Rightarrow> real list" where
  "Ycosn_reconstruct order cnst = map (\<lambda>x. sqrt cnst * cos x ^ nat order) Xcosn"

definition phase_build :: "SCFpyr_NumPy \<Rightarrow> complex" where
  "phase_build self = (- \<i>) ^ nat (nbands self - 1)"

definition phase_reconstruct :: "SCFpyr_NumPy \<Rightarrow> complex" where
  "phase_reconstruct self = \<i> ^ nat (nbands self - 1)"

text \<open>
  The crop window of one axis of length \<open>d\<close>:
  \<^verbatim>\<open>
  low_ind_start = (np.ceil((dims+0.5)/2) - np.ceil((np.ceil((dims-0.5)/2)+0.5)/2)).astype(int)
  low_ind_end   = (low_ind_start + np.ceil((dims-0.5)/2)).astype(int)
  \<close>
\<close>

definition low_ind_start :: "nat \<Rightarrow> int" where
  "low_ind_start d =
     \<lceil>(real d + 1 / 2) / 2\<rceil> - \<lceil>(real_of_int \<lceil>(real d - 1 / 2) / 2\<rceil> + 1 / 2) / 2\<rceil>"

definition low_ind_end :: "nat \<Rightarrow> int" where
  "low_ind_end d = low_ind_start d + \<lceil>(real d - 1 / 2) / 2\<rceil>"

definition crop :: "nat \<times> nat \<Rightarrow> 'a list list \<Rightarrow> 'a list list" where
  "crop dims a =
     slice2 (low_ind_start (fst dims), low_ind_end (fst dims))
            (low_ind_start (snd dims), low_ind_end (snd dims)) a"

subsection \<open>Construction of the pyramid\<close>

text \<open>
  One oriented subband of \<^verbatim>\<open>_build_levels\<close>:
  \<^verbatim>\<open>
  anglemask = pointOp(angle, Ycosn, self.Xcosn + np.pi*b/self.nbands)
  banddft = np.power(np.complex(0, -1), self.nbands - 1) * lodft * anglemask * himask
  band = np.fft.ifft2(np.fft.ifftshift(banddft))
  \<close>
\<close>

definition build_band ::
    "math_utils \<Rightarrow> SCFpyr_NumPy \<Rightarrow> complex list list \<Rightarrow> real list list \<Rightarrow> real list list \<Rightarrow>
     real list \<Rightarrow> nat \<Rightarrow> py_error + complex list list" where
  "build_band mu self lodft angle himask Ycosn b =
     (let anglemask =
            pointOp mu angle Ycosn (map (\<lambda>x. x + pi * real b / real_of_int (nbands self)) Xcosn) in
      bind_err (times_mask (map (map (\<lambda>z. phase_build self * z)) lodft) anglemask) (\<lambda>d.
      bind_err (times_mask d himask) (\<lambda>banddft.
        ifft2 (ifftshift banddft))))"

text \<open>
  The recursive case of \<^verbatim>\<open>_build_levels\<close> up to the recursive call: it returns the
  oriented subbands of this scale and the arguments \<open>(lodft, log_rad, angle, Xrcos)\<close> that
  the recursive call receives.
  \<^verbatim>\<open>
  Xrcos = Xrcos - 1
  himask = pointOp(log_rad, Yrcos, Xrcos)
  order = self.nbands - 1
  const = ...
  Ycosn = ...
  orientations = []
  for b in range(self.nbands):
      ...
      orientations.append(band)
  dims = np.array(lodft.shape)
  low_ind_start = ...
  low_ind_end   = ...
  log_rad = log_rad[low_ind_start[0]:low_ind_end[0], low_ind_start[1]:low_ind_end[1]]
  angle   = angle[low_ind_start[0]:low_ind_end[0], low_ind_start[1]:low_ind_end[1]]
  lodft   = lodft[low_ind_start[0]:low_ind_end[0], low_ind_start[1]:low_ind_end[1]]
  YIrcos = np.abs(np.sqrt(1 - Yrcos**2))
  lomask = pointOp(log_rad, YIrcos, Xrcos)
  lodft = lomask * lodft
  \<close>
\<close>

definition build_level ::
    "math_utils \<Rightarrow> SCFpyr_NumPy \<Rightarrow> complex list list \<Rightarrow> real list list \<Rightarrow> real list list \<Rightarrow>
     real list \<Rightarrow> real list \<Rightarrow>
     py_error + (complex list list list \<times> complex list list \<times> real list list \<times> real list list \<times> real list)" where
  "build_level mu self lodft log_rad angle Xrcos Yrcos =
     (let Xrcos = map (\<lambda>x. x - 1) Xrcos;
          himask = pointOp mu log_rad Yrcos Xrcos;
          order = nbands self - 1 in
      bind_err (angular_const (nbands self)) (\<lambda>cnst.
      let Ycosn = Ycosn_build order cnst in
      bind_err (map_err (build_band mu self lodft angle himask Ycosn) [0..<nat (nbands self)])
        (\<lambda>orientations.
      let dims = np_shape lodft;
          log_rad = crop dims log_rad;
          angle = crop dims angle;
          lodft = crop dims lodft;
          YIrcos = map (\<lambda>y. \<bar>sqrt (1 - y\<^sup>2)\<bar>) Yrcos;
          lomask = pointOp mu log_rad YIrcos Xrcos in
      bind_err (times_mask lodft lomask) (\<lambda>lodft.
        Inr (orientations, lodft, log_rad, angle, Xrcos)))))"

text \<open>
  \<^verbatim>\<open>
  def _build_levels(self, lodft, log_rad, angle, Xrcos, Yrcos, height):
      if height <= 1:
          lo0 = np.fft.ifft2(np.fft.ifftshift(lodft))
          coeff = [lo0.real]
      else:
          ...
          coeff = self._build_levels(lodft, log_rad, angle, Xrcos, Yrcos, height-1)
          coeff.insert(0, orientations)
      return coeff
  \<close>
\<close>

function build_levels ::
    "math_utils \<Rightarrow> SCFpyr_NumPy \<Rightarrow> complex list list \<Rightarrow> real list list \<Rightarrow> real list list \<Rightarrow>
     real list \<Rightarrow> real list \<Rightarrow> int \<Rightarrow> py_error + level list" where
  "build_levels mu self lodft log_rad angle Xrcos Yrcos h =
     (if h \<le> 1 then
        bind_err (ifft2 (ifftshift lodft)) (\<lambda>lo0. Inr [Real_array (real_part lo0)])
      else
        bind_err (build_level mu self lodft log_rad angle Xrcos Yrcos)
          (\<lambda>(orientations, lodft, log_rad, angle, Xrcos).
        bind_err (build_levels mu self lodft log_rad angle Xrcos Yrcos (h - 1)) (\<lambda>coeff.
          Inr (Orientations orientations # coeff))))"
  by pat_completeness auto
termination
  by (relation "measure (\<lambda>(mu, self, lodft, log_rad, angle, Xrcos, Yrcos, h). nat h)") auto

text \<open>
  The loop that fills the pyramid object:
  \<^verbatim>\<open>
  for level, level_coeff in enumerate(coeff):
      pyr.set_level(level, level_coeff)
  \<close>
\<close>

fun set_levels :: "ComplexSteerablePyramid \<Rightarrow> int \<Rightarrow> level list \<Rightarrow> py_error + ComplexSteerablePyramid" where
  "set_levels pyr lvl [] = Inr pyr"
| "set_levels pyr lvl (c # cs) = bind_err (set_level pyr lvl c) (\<lambda>pyr. set_levels pyr (lvl + 1) cs)"

text \<open>
  \<^verbatim>\<open>max_height_pyr = int(np.floor(np.log2(min(width, height))) - 2)\<close>. The logarithm of 0
  is minus infinity, which \<^verbatim>\<open>int\<close> refuses with OverflowError.
\<close>

definition max_height_pyr :: "nat \<Rightarrow> nat \<Rightarrow> py_error + int" where
  "max_height_pyr w h =
     (if min w h = 0 then Inl OverflowError else Inr (\<lfloor>log 2 (real (min w h))\<rfloor> - 2))"

text \<open>
  \<^verbatim>\<open>
  def build(self, im):
      assert len(im.shape) == 2, 'Input im must be grayscale'
      height, width = im.shape
      max_height_pyr = int(np.floor(np.log2(min(width, height))) - 2)
      assert max_height_pyr >= self.height, 'Cannot buid pyramid heigher than {} levels'.format(max_height_pyr)
      log_rad, angle = math_utils.prepare_grid(height, width)
      Xrcos, Yrcos = math_utils.rcosFn(1, -0.5)
      Yrcos = np.sqrt(Yrcos)
      YIrcos = np.sqrt(1 - Yrcos**2)
      lo0mask = pointOp(log_rad, YIrcos, Xrcos)
      hi0mask = pointOp(log_rad, Yrcos, Xrcos)
      imdft = np.fft.fftshift(np.fft.fft2(im))
      lo0dft = imdft * lo0mask
      coeff = self._build_levels(lo0dft, log_rad, angle, Xrcos, Yrcos, self.height-1)
      hi0dft = imdft * hi0mask
      hi0 = np.fft.ifft2(np.fft.ifftshift(hi0dft))
      coeff.insert(0, hi0.real)
      pyr = ComplexSteerablePyramid(height=self.height, nbands=self.nbands)
      for level, level_coeff in enumerate(coeff):
          pyr.set_level(level, level_coeff)
      return pyr
  \<close>
  The image is a two-dimensional array, so the first assertion holds. The message of the
  second assertion is kept without the number filled in.
\<close>

definition build :: "math_utils \<Rightarrow> SCFpyr_NumPy \<Rightarrow> real list list \<Rightarrow> py_error + ComplexSteerablePyramid" where
  "build mu self im =
     (let h = fst (np_shape im); w = snd (np_shape im) in
      bind_err (max_height_pyr w h) (\<lambda>mx.
      if \<not> (mx \<ge> height self) then Inl (AssertionError ''Cannot buid pyramid heigher than {} levels'')
      else
        let log_rad = fst (prepare_grid mu h w); angle = snd (prepare_grid mu h w);
            Xrcos = fst (rcosFn mu 1 (- (1 / 2)));
            Yrcos = map sqrt (snd (rcosFn mu 1 (- (1 / 2))));
            YIrcos = map (\<lambda>y. sqrt (1 - y\<^sup>2)) Yrcos;
            lo0mask = pointOp mu log_rad YIrcos Xrcos;
            hi0mask = pointOp mu log_rad Yrcos Xrcos in
        bind_err (fft2 (as_complex im)) (\<lambda>F.
        let imdft = fftshift F in
        bind_err (times_mask imdft lo0mask) (\<lambda>lo0dft.
        bind_err (build_levels mu self lo0dft log_rad angle Xrcos Yrcos (height self - 1)) (\<lambda>coeff.
        bind_err (times_mask imdft hi0mask) (\<lambda>hi0dft.
        bind_err (ifft2 (ifftshift hi0dft)) (\<lambda>hi0.
        let coeff = Real_array (real_part hi0) # coeff;
            pyr = new_pyramid (height self) (nbands self) in
        set_levels pyr 0 coeff)))))))"

subsection \<open>Reconstruction\<close>

text \<open>
  What a caller can hand to \<^verbatim>\<open>reconstruct\<close>: the list of levels that the docstring of
  \<^verbatim>\<open>build\<close> describes, or the pyramid object that \<^verbatim>\<open>build\<close> returns. The object defines
  no \<^verbatim>\<open>__getitem__\<close>, so indexing it raises TypeError.
\<close>

datatype coefficients = Coeff_list "level list" | Pyramid_object ComplexSteerablePyramid

text \<open>\<^verbatim>\<open>len(x)\<close> of a level: the number of subbands of a list, the number of rows of an array.\<close>

definition len_level :: "level \<Rightarrow> nat" where
  "len_level l = (case l of Real_array a \<Rightarrow> length a | Orientations bs \<Rightarrow> length bs)"

text \<open>
  One pass of the loop over the orientations in \<^verbatim>\<open>_reconstruct_levels\<close>:
  \<^verbatim>\<open>
  anglemask = pointOp(angle, Ycosn, Xcosn + np.pi * b/self.nbands)
  banddft = np.fft.fftshift(np.fft.fft2(coeff[0][b]))
  orientdft = orientdft + np.power(np.complex(0, 1), order) * banddft * anglemask * himask
  \<close>
\<close>

definition reconstruct_band ::
    "math_utils \<Rightarrow> SCFpyr_NumPy \<Rightarrow> complex list list list \<Rightarrow> real list list \<Rightarrow> real list list \<Rightarrow>
     real list \<Rightarrow> nat \<Rightarrow> complex list list \<Rightarrow> py_error + complex list list" where
  "reconstruct_band mu self bands angle himask Ycosn b orientdft =
     (let anglemask =
            pointOp mu angle Ycosn (map (\<lambda>x. x + pi * real b / real_of_int (nbands self)) Xcosn) in
      if length bands \<le> b then Inl IndexError
      else
        bind_err (fft2 (bands ! b)) (\<lambda>F.
        let banddft = fftshift F in
        bind_err (times_mask (map (map (\<lambda>z. phase_reconstruct self * z)) banddft) anglemask) (\<lambda>d.
        bind_err (times_mask d himask) (\<lambda>d.
          plus_array orientdft d))))"

text \<open>
  \<^verbatim>\<open>
  def _reconstruct_levels(self, coeff, log_rad, Xrcos, Yrcos, angle):
      if len(coeff) == 1:
          return np.fft.fftshift(np.fft.fft2(coeff[0]))
      else:
          Xrcos = Xrcos - 1
          himask = pointOp(log_rad, Yrcos, Xrcos)
          lutsize = 1024
          Xcosn = np.pi * np.array(range(-(2*lutsize+1), (lutsize+2)))/lutsize
          order = self.nbands - 1
          const = ...
          Ycosn = np.sqrt(const) * np.power(np.cos(Xcosn), order)
          orientdft = np.zeros(coeff[0][0].shape)
          for b in range(self.nbands):
              ...
          dims = np.array(coeff[0][0].shape)
          lostart = ...
          loend = ...
          nlog_rad = log_rad[lostart[0]:loend[0], lostart[1]:loend[1]]
          nangle = angle[lostart[0]:loend[0], lostart[1]:loend[1]]
          YIrcos = np.sqrt(np.abs(1 - Yrcos * Yrcos))
          lomask = pointOp(nlog_rad, YIrcos, Xrcos)
          nresdft = self._reconstruct_levels(coeff[1:], nlog_rad, Xrcos, Yrcos, nangle)
          resdft = np.zeros(dims, 'complex')
          resdft[lostart[0]:loend[0], lostart[1]:loend[1]] = nresdft * lomask
          return resdft + orientdft
  \<close>
  A well-formed list has its real low-pass array last and lists of subbands before it. On
  other lists NumPy raises where an array stands for a list of subbands (its rows are
  one-dimensional). A list of subbands in the last place is outside this model: NumPy
  stacks it into a three-dimensional array and goes on with it, so that \<^verbatim>\<open>reconstruct\<close> on
  a two-level list whose second level is a list of subbands returns a three-dimensional
  array; the arrays here are two-dimensional, and the model answers TypeError there.
\<close>

fun reconstruct_levels ::
    "math_utils \<Rightarrow> SCFpyr_NumPy \<Rightarrow> level list \<Rightarrow> real list list \<Rightarrow> real list \<Rightarrow> real list \<Rightarrow>
     real list list \<Rightarrow> py_error + complex list list" where
  "reconstruct_levels mu self [Real_array a] log_rad Xrcos Yrcos angle =
     bind_err (fft2 (as_complex a)) (\<lambda>F. Inr (fftshift F))"
| "reconstruct_levels mu self [Orientations bs] log_rad Xrcos Yrcos angle = Inl TypeError"
| "reconstruct_levels mu self [] log_rad Xrcos Yrcos angle =
     bind_err (angular_const (nbands self)) (\<lambda>cnst. Inl IndexError)"
| "reconstruct_levels mu self (Real_array a # c # cs) log_rad Xrcos Yrcos angle =
     bind_err (angular_const (nbands self)) (\<lambda>cnst. Inl IndexError)"
| "reconstruct_levels mu self (Orientations bands # c # cs) log_rad Xrcos Yrcos angle =
     (let Xrcos = map (\<lambda>x. x - 1) Xrcos;
          himask = pointOp mu log_rad Yrcos Xrcos;
          order = nbands self - 1 in
      bind_err (angular_const (nbands self)) (\<lambda>cnst.
      let Ycosn = Ycosn_reconstruct order cnst in
      if bands = [] then Inl IndexError
      else
        let dims = np_shape (bands ! 0) in
        bind_err (fold_err (reconstruct_band mu self bands angle himask Ycosn)
                    [0..<nat (nbands self)] (zeros dims)) (\<lambda>orientdft.
        let nlog_rad = crop dims log_rad;
            nangle = crop dims angle;
            YIrcos = map (\<lambda>y. sqrt \<bar>1 - y * y\<bar>) Yrcos;
            lomask = pointOp mu nlog_rad YIrcos Xrcos in
        bind_err (reconstruct_levels mu self (c # cs) nlog_rad Xrcos Yrcos nangle) (\<lambda>nresdft.
        bind_err (times_mask nresdft lomask) (\<lambda>v.
        bind_err (assign_slice2 (zeros dims)
                    (low_ind_start (fst dims), low_ind_end (fst dims))
                    (low_ind_start (snd dims), low_ind_end (snd dims)) v) (\<lambda>resdft.
          plus_array resdft orientdft))))))"

text \<open>
  \<^verbatim>\<open>
  def reconstruct(self, coeff):
      if self.nbands != len(coeff[1]):
          raise Exception("Unmatched number of orientations")
      M, N = coeff[0].shape
      log_rad, angle = math_utils.prepare_grid(M, N)
      Xrcos, Yrcos = math_utils.rcosFn(1, -0.5)
      Yrcos  = np.sqrt(Yrcos)
      YIrcos = np.sqrt(np.abs(1 - Yrcos*Yrcos))
      lo0mask = pointOp(log_rad, YIrcos, Xrcos)
      hi0mask = pointOp(log_rad, Yrcos, Xrcos)
      tempdft = self._reconstruct_levels(coeff[1:], log_rad, Xrcos, Yrcos, angle)
      hidft = np.fft.fftshift(np.fft.fft2(coeff[0]))
      outdft = tempdft * lo0mask + hidft * hi0mask
      return np.fft.ifft2(np.fft.ifftshift(outdft)).real.astype(int)
  \<close>
  \<open>reconstruct_transform\<close> is the function up to the final inverse transform
  \<^verbatim>\<open>np.fft.ifft2(np.fft.ifftshift(outdft))\<close>; \<open>reconstruct\<close> converts its real part with
  \<^verbatim>\<open>.real.astype(int)\<close>. The arrays of this theory hold real and complex numbers, where the
  program holds float64 and complex128: the transform of the program is the one defined
  here up to rounding error.
\<close>

definition reconstruct_transform ::
    "math_utils \<Rightarrow> SCFpyr_NumPy \<Rightarrow> coefficients \<Rightarrow> py_error + complex list list" where
  "reconstruct_transform mu self coeff =
     (case coeff of
        Pyramid_object pyr \<Rightarrow> Inl TypeError
      | Coeff_list cs \<Rightarrow>
          if length cs < 2 then Inl IndexError
          else if nbands self \<noteq> int (len_level (cs ! 1))
          then Inl (PyException ''Unmatched number of orientations'')
          else
            (case cs ! 0 of
               Orientations bs \<Rightarrow> Inl (AttributeError ''shape'')
             | Real_array hi \<Rightarrow>
                 let M = fst (np_shape hi); N = snd (np_shape hi);
                     log_rad = fst (prepare_grid mu M N); angle = snd (prepare_grid mu M N);
                     Xrcos = fst (rcosFn mu 1 (- (1 / 2)));
                     Yrcos = map sqrt (snd (rcosFn mu 1 (- (1 / 2))));
                     YIrcos = map (\<lambda>y. sqrt \<bar>1 - y * y\<bar>) Yrcos;
                     lo0mask = pointOp mu log_rad YIrcos Xrcos;
                     hi0mask = pointOp mu log_rad Yrcos Xrcos in
                 bind_err (reconstruct_levels mu self (tl cs) log_rad Xrcos Yrcos angle) (\<lambda>tempdft.
                 bind_err (fft2 (as_complex hi)) (\<lambda>F.
                 let hidft = fftshift F in
                 bind_err (times_mask tempdft lo0mask) (\<lambda>lo.
                 bind_err (times_mask hidft hi0mask) (\<lambda>hi.
                 bind_err (plus_array lo hi) (\<lambda>outdft.
                   ifft2 (ifftshift outdft))))))))"

definition reconstruct :: "math_utils \<Rightarrow> SCFpyr_NumPy \<Rightarrow> coefficients \<Rightarrow> py_error + int list list" where
  "reconstruct mu self coeff =
     bind_err (reconstruct_transform mu self coeff) (\<lambda>z. Inr (real_astype_int z))"

section \<open>steerable/SCFpyr_PyTorch.py: the builder\<close>

text \<open>
  \<^verbatim>\<open>
  def __init__(self, height=5, nbands=4, scale_factor=2, device=None):
      self.nbands = nbands
      self.height = height
      self.scale_factor = scale_factor
      self.device = torch.device('cpu') if device is None else device
  \<close>
\<close>

record SCFpyr_PyTorch =
  torch_nbands :: int
  torch_height :: int
  torch_scale_factor :: real
  torch_device :: string

text \<open>
  The argument of \<^verbatim>\<open>build\<close> is a tensor: its dtype, its shape, and its entries when the
  shape is \<open>[N, H, W]\<close>.
\<close>

datatype torch_dtype = Float16 | Float32 | Float64 | Uint8 | Int32 | Int64

record image_batch =
  batch_dtype :: torch_dtype
  batch_shape :: "nat list"
  batch_entries :: "real list list list"

text \<open>
  Two steps of \<^verbatim>\<open>build\<close> are calls into torch that return or raise, and are parameters
  here: the conversion of a mask,
  \<^verbatim>\<open>torch.from_numpy(mask)[None,None,:,:].float().to(self.device)\<close>, and
  \<^verbatim>\<open>torch.rfft(im_batch, signal_ndim=2, onesided=False)\<close>, which returns a tensor of shape
  \<open>[N, H, W, 2]\<close>.
\<close>

record torch_api =
  mask_to_device :: "string \<Rightarrow> real list list \<Rightarrow> py_error + real list list"
  rfft :: "image_batch \<Rightarrow> py_error + tensor4"

text \<open>
  \<^verbatim>\<open>
  def build(self, im_batch):
      assert im_batch.dtype == torch.float32, 'Image batch must be torch.float32'
      assert len(im_batch.shape) == 3, 'Images batch must be grayscale'
      _, height, width = im_batch.shape
      max_height_pyr = int(np.floor(np.log2(min(width, height))) - 2)
      assert max_height_pyr >= self.height, 'Cannot buid pyramid with more than {} levels'.format(max_height_pyr)
      log_rad, angle = steerable.utils.prepare_grid(height, width)
      Xrcos, Yrcos = steerable.utils.rcosFn(1, -0.5)
      Yrcos = np.sqrt(Yrcos)
      YIrcos = np.sqrt(1 - Yrcos**2)
      lo0mask = pointOp(log_rad, YIrcos, Xrcos)
      hi0mask = pointOp(log_rad, Yrcos, Xrcos)
      lo0mask = torch.from_numpy(lo0mask)[None,None,:,:].float().to(self.device)
      hi0mask = torch.from_numpy(hi0mask)[None,None,:,:].float().to(self.device)
      batch_dft = torch.rfft(im_batch, signal_ndim=2, onesided=False)
      batch_dft = torch.unbind(batch_dft, -1)
      batch_dft = fft_utils.fftshift(batch_dft[0], batch_dft[1])
      lo0dft = batch_dft * lo0mask
      coeff = self._build_levels(lo0dft, log_rad, angle, Xrcos, Yrcos, self.height-1)
      hi0dft = batch_dft * hi0mask
      hi0 = np.fft.ifft2(np.fft.ifftshift(hi0dft))
      coeff.insert(0, hi0.real)
      return coeff
  \<close>
  \<^verbatim>\<open>fft_utils\<close> is the module steerable/fft.py. It defines \<^verbatim>\<open>batch_flip_halves\<close>,
  \<^verbatim>\<open>batch_fftshift2d\<close> and \<^verbatim>\<open>batch_ifftshift2d\<close>; its \<^verbatim>\<open>fftshift\<close> stands in a comment. So
  the attribute lookup \<^verbatim>\<open>fft_utils.fftshift\<close> raises AttributeError, before the arguments of
  the call are evaluated, and the lines after it are never reached: \<^verbatim>\<open>_build_levels\<close>,
  which starts its recursive case with \<^verbatim>\<open>Xrcos = Xrcos - np.log2(self.scale_factor)\<close> and
  looks \<^verbatim>\<open>fft_utils.fftshift\<close> up again in its base case, is not entered. The module
  steerable.utils is the collaborator of this class, with the three functions of
  steerable.math_utils.
\<close>

definition torch_build ::
    "torch_api \<Rightarrow> math_utils \<Rightarrow> SCFpyr_PyTorch \<Rightarrow> image_batch \<Rightarrow> py_error + level list" where
  "torch_build api mu self im_batch =
     (if batch_dtype im_batch \<noteq> Float32
      then Inl (AssertionError ''Image batch must be torch.float32'')
      else if length (batch_shape im_batch) \<noteq> 3
      then Inl (AssertionError ''Images batch must be grayscale'')
      else
        let h = batch_shape im_batch ! 1; w = batch_shape im_batch ! 2 in
        bind_err (max_height_pyr w h) (\<lambda>mx.
        if \<not> (mx \<ge> torch_height self)
        then Inl (AssertionError ''Cannot buid pyramid with more than {} levels'')
        else
          let log_rad = fst (prepare_grid mu h w);
              Xrcos = fst (rcosFn mu 1 (- (1 / 2)));
              Yrcos = map sqrt (snd (rcosFn mu 1 (- (1 / 2))));
              YIrcos = map (\<lambda>y. sqrt (1 - y\<^sup>2)) Yrcos;
              lo0mask = pointOp mu log_rad YIrcos Xrcos;
              hi0mask = pointOp mu log_rad Yrcos Xrcos in
          bind_err (mask_to_device api (torch_device self) lo0mask) (\<lambda>lo0mask.
          bind_err (mask_to_device api (torch_device self) hi0mask) (\<lambda>hi0mask.
          bind_err (rfft api im_batch) (\<lambda>batch_dft.
            Inl (AttributeError ''fftshift''))))))"

text \<open>A torch whose two calls return: the masks unchanged, and the transform of each image.\<close>

definition cpu_torch :: torch_api where
  "cpu_torch =
     \<lparr> mask_to_device = (\<lambda>device m. Inr m),
       rfft = (\<lambda>b. Inr \<lparr> shape = batch_shape b @ [2],
                          entries = map (\<lambda>im. map (map (\<lambda>z. [Re z, Im z])) (dft2 (- 1) (as_complex im)))
                                        (batch_entries b) \<rparr>) \<rparr>"

section \<open>Shapes of the levels\<close>

text \<open>
  The length of the crop window of an axis of length \<open>d\<close>, and the length of an axis after
  \<open>k\<close> crops.
\<close>

definition cropped :: "nat \<Rightarrow> nat" where
  "cropped d = nat (low_ind_end d - low_ind_start d)"

definition level_axis :: "nat \<Rightarrow> nat \<Rightarrow> nat" where
  "level_axis k d = (cropped ^^ k) d"

text \<open>
  The list that \<^verbatim>\<open>_build_levels\<close> returns on a spectrum of shape \<open>(r, c)\<close>: levels of
  \<open>nb\<close> subbands of the current shape, each followed by the levels of the cropped
  spectrum, and a real array last.
\<close>

fun levels_ok :: "int \<Rightarrow> nat \<Rightarrow> nat \<Rightarrow> level list \<Rightarrow> bool" where
  "levels_ok nb r c [Real_array lo] = is_array r c lo"
| "levels_ok nb r c (Orientations bs # l # ls) =
     (length bs = nat nb \<and> list_all (is_array r c) bs \<and> levels_ok nb (cropped r) (cropped c) (l # ls))"
| "levels_ok nb r c ls = False"


section \<open>Properties of the half-flip helpers\<close>

lemma bind_err_Inr [simp]: "bind_err (Inr v) f = f v"
  by (simp add: bind_err_def)

lemma bind_err_Inl [simp]: "bind_err (Inl e) f = Inl e"
  by (simp add: bind_err_def)

lemma chunk_two:
  assumes "shape x ! axis = 2 * k"
  shows "chunk x 2 axis = [narrow x axis 0 k, narrow x axis k k]"
proof (cases "k = 0")
  case True
  then show ?thesis using assms by (simp add: chunk_def Let_def numeral_2_eq_2)
next
  case False
  have s: "(shape x ! axis + 2 - 1) div 2 = k" using assms by simp
  have "(shape x ! axis + k - 1) div k = 2"
    using False assms by (intro div_nat_eqI) auto
  then have m: "max ((shape x ! axis + k - 1) div k) 1 = Suc (Suc 0)" by simp
  have u: "[0..<Suc (Suc 0)] = [0, Suc 0]" by simp
  have "chunk x 2 axis = map (\<lambda>i. narrow x axis (i * k) (min k (shape x ! axis - i * k))) [0, Suc 0]"
    unfolding chunk_def Let_def s m u using False by simp
  then show ?thesis using assms by simp
qed

lemma map2_map_same: "map2 f (map g xs) (map h xs) = map (\<lambda>x. f (g x) (h x)) xs"
  by (induction xs) auto

lemma flip_halves_value:
  assumes "shape x ! axis = 2 * k"
  shows "batch_flip_halves x axis = Inr (cat (narrow x axis k k) (narrow x axis 0 k) axis)"
  by (simp add: batch_flip_halves_def chunk_two [OF assms] Let_def)

lemma flip_halves_axis1:
  assumes "tensor_ok x" "shape x ! 1 = 2 * k"
  shows "batch_flip_halves x 1 = Inr (x \<lparr> entries := map (\<lambda>a. drop k a @ take k a) (entries x) \<rparr>)"
proof -
  have len: "\<And>a. a \<in> set (entries x) \<Longrightarrow> length a = 2 * k"
    using assms by (auto simp: tensor_ok_def)
  have l4: "length (shape x) = 4" using assms by (simp add: tensor_ok_def)
  have sh: "(shape x)[1 := k + k] = shape x"
    using assms by (metis list_update_id mult_2)
  have e: "map (\<lambda>a. take k (drop k a) @ take k a) (entries x) = map (\<lambda>a. drop k a @ take k a) (entries x)"
    using len by (intro map_cong) auto
  show ?thesis
    unfolding flip_halves_value [OF assms(2)]
    using l4 sh e by (cases x) (simp add: cat_def narrow_def map2_map_same)
qed

lemma flip_halves_axis2:
  assumes "tensor_ok x" "shape x ! 2 = 2 * k"
  shows "batch_flip_halves x 2 = Inr (x \<lparr> entries := map (map (\<lambda>b. drop k b @ take k b)) (entries x) \<rparr>)"
proof -
  have len: "\<And>a b. a \<in> set (entries x) \<Longrightarrow> b \<in> set a \<Longrightarrow> length b = 2 * k"
    using assms by (auto simp: tensor_ok_def)
  have l4: "length (shape x) = 4" using assms by (simp add: tensor_ok_def)
  have sh: "(shape x)[2 := k + k] = shape x"
    using assms by (metis list_update_id mult_2)
  have e: "map (map (\<lambda>b. take k (drop k b) @ take k b)) (entries x) = map (map (\<lambda>b. drop k b @ take k b)) (entries x)"
    using len by (intro map_cong) auto
  show ?thesis
    unfolding flip_halves_value [OF assms(2)]
    using l4 sh e by (cases x) (simp add: cat_def narrow_def map2_map_same)
qed

lemma flip_ok1:
  assumes "tensor_ok x" "shape x ! 1 = 2 * k"
  shows "tensor_ok (x \<lparr> entries := map (\<lambda>a. drop k a @ take k a) (entries x) \<rparr>)"
  using assms by (auto simp: tensor_ok_def dest: in_set_dropD in_set_takeD)

lemma flip_ok2:
  assumes "tensor_ok x" "shape x ! 2 = 2 * k"
  shows "tensor_ok (x \<lparr> entries := map (map (\<lambda>b. drop k b @ take k b)) (entries x) \<rparr>)"
  using assms by (auto simp: tensor_ok_def dest: in_set_dropD in_set_takeD)

lemma flip_twice1:
  assumes "tensor_ok x" "shape x ! 1 = 2 * k"
  shows "map (\<lambda>a. drop k a @ take k a) (map (\<lambda>a. drop k a @ take k a) (entries x)) = entries x"
proof -
  have "\<And>a. a \<in> set (entries x) \<Longrightarrow> length a = 2 * k"
    using assms by (auto simp: tensor_ok_def)
  then have "map (\<lambda>a. drop k (drop k a @ take k a) @ take k (drop k a @ take k a)) (entries x) = map (\<lambda>a. a) (entries x)"
    by (intro map_cong) auto
  then show ?thesis by (simp add: comp_def)
qed

lemma flip_twice2:
  assumes "tensor_ok x" "shape x ! 2 = 2 * k"
  shows "map (map (\<lambda>b. drop k b @ take k b)) (map (map (\<lambda>b. drop k b @ take k b)) (entries x)) = entries x"
proof -
  have "\<And>a b. a \<in> set (entries x) \<Longrightarrow> b \<in> set a \<Longrightarrow> length b = 2 * k"
    using assms by (auto simp: tensor_ok_def)
  then have "map (map (\<lambda>b. drop k (drop k b @ take k b) @ take k (drop k b @ take k b))) (entries x) = map (map (\<lambda>b. b)) (entries x)"
    by (intro map_cong) auto
  then show ?thesis by (simp add: comp_def)
qed

text \<open>
  Claim C10. For every tensor of shape \<open>[N, H, W, 2]\<close> with even \<open>H\<close> and even \<open>W\<close>,
  \<^verbatim>\<open>batch_fftshift2d\<close> followed by \<^verbatim>\<open>batch_ifftshift2d\<close> succeeds and returns the
  tensor unchanged: on an axis of even length \<^verbatim>\<open>torch.chunk\<close> cuts two equal halves, and
  swapping them twice is the identity.
\<close>

theorem shift_roundtrip:
  assumes ok: "tensor_ok x" and sh: "shape x = [N, H, W, 2]" and H: "even H" and W: "even W"
  shows "bind_err (batch_fftshift2d x) batch_ifftshift2d = Inr x"
proof -
  from H obtain h where h: "H = 2 * h" by (auto elim: evenE)
  from W obtain w where w: "W = 2 * w" by (auto elim: evenE)
  let ?f1 = "\<lambda>e. map (\<lambda>a. drop h a @ take h a) e"
  let ?f2 = "\<lambda>e. map (map (\<lambda>b. drop w b @ take w b)) e"
  let ?x1 = "x \<lparr> entries := ?f1 (entries x) \<rparr>"
  let ?x2 = "?x1 \<lparr> entries := ?f2 (entries ?x1) \<rparr>"
  let ?x3 = "?x2 \<lparr> entries := ?f2 (entries ?x2) \<rparr>"
  have s1: "shape x ! 1 = 2 * h" and s2: "shape x ! 2 = 2 * w" using sh h w by simp_all
  have ok1: "tensor_ok ?x1" by (rule flip_ok1 [OF ok s1])
  have s12: "shape ?x1 ! 2 = 2 * w" using s2 by simp
  have ok2: "tensor_ok ?x2" by (rule flip_ok2 [OF ok1 s12])
  have s22: "shape ?x2 ! 2 = 2 * w" using s2 by simp
  have x3: "?x3 = ?x1"
    using flip_twice2 [OF ok1 s12] by simp
  have x4: "?x1 \<lparr> entries := ?f1 (entries ?x1) \<rparr> = x"
    using flip_twice1 [OF ok s1] by simp
  have c: "length (shape x) = 4" "last (shape x) = 2" using sh by simp_all
  have c2: "length (shape ?x2) = 4" "last (shape ?x2) = 2" using sh by simp_all
  have f1: "batch_flip_halves x 1 = Inr ?x1" by (rule flip_halves_axis1 [OF ok s1])
  have f2: "batch_flip_halves ?x1 2 = Inr ?x2" by (rule flip_halves_axis2 [OF ok1 s12])
  have fwd: "batch_fftshift2d x = Inr ?x2"
    unfolding batch_fftshift2d_def by (simp only: c f1 f2 bind_err_Inr if_False simp_thms)
  have s11: "shape ?x1 ! 1 = 2 * h" using s1 by simp
  have b2: "batch_flip_halves ?x2 2 = Inr ?x1"
    using flip_halves_axis2 [OF ok2 s22] x3 by simp
  have b1: "batch_flip_halves ?x1 1 = Inr x"
    using flip_halves_axis1 [OF ok1 s11] x4 by simp
  have bwd: "batch_ifftshift2d ?x2 = Inr x"
    unfolding batch_ifftshift2d_def by (simp only: c2 b2 b1 bind_err_Inr if_False simp_thms)
  show ?thesis by (simp only: fwd bwd bind_err_Inr)
qed


theorem shift_roundtrip_witness:
  "tensor_ok \<lparr> shape = [1, 2, 2, 2], entries = [[[[1, 2], [3, 4]], [[5, 6], [7, 8]]]] \<rparr> \<and>
   even (2::nat) \<and>
   bind_err (batch_fftshift2d \<lparr> shape = [1, 2, 2, 2], entries = [[[[1, 2], [3, 4]], [[5, 6], [7, 8]]]] \<rparr>)
     batch_ifftshift2d
   = Inr \<lparr> shape = [1, 2, 2, 2], entries = [[[[1, 2], [3, 4]], [[5, 6], [7, 8]]]] \<rparr>"
proof -
  let ?x = "\<lparr> shape = [1, 2, 2, 2], entries = [[[[1, 2], [3, 4]], [[5, 6], [7, 8]]]] \<rparr> :: tensor4"
  have ok: "tensor_ok ?x" by (simp add: tensor_ok_def)
  have sh: "shape ?x = [1, 2, 2, 2]" by simp
  have ev: "even (2::nat)" by simp
  show ?thesis using ok ev shift_roundtrip [OF ok sh ev ev] by simp
qed

text \<open>
  The evenness matters: on an axis of odd length \<open>2k + 1\<close> the pieces have \<open>k + 1\<close> and
  \<open>k\<close> sub-tensors, each flip rotates the axis by \<open>k\<close>, and the two shifts together
  rotate it by \<open>2k\<close> instead of restoring it. On an axis of length 1 there is a single
  piece and the flip raises IndexError.
\<close>

lemma chunk_odd:
  assumes "shape x ! axis = 2 * k + 1" "0 < k"
  shows "chunk x 2 axis = [narrow x axis 0 (k + 1), narrow x axis (k + 1) k]"
proof -
  have s: "(shape x ! axis + 2 - 1) div 2 = k + 1" using assms by simp
  have "(shape x ! axis + (k + 1) - 1) div (k + 1) = 2"
    using assms by (intro div_nat_eqI) auto
  then have m: "max ((shape x ! axis + (k + 1) - 1) div (k + 1)) 1 = Suc (Suc 0)" by simp
  have u: "[0..<Suc (Suc 0)] = [0, Suc 0]" by simp
  have "chunk x 2 axis =
      map (\<lambda>i. narrow x axis (i * (k + 1)) (min (k + 1) (shape x ! axis - i * (k + 1)))) [0, Suc 0]"
    unfolding chunk_def Let_def s m u by simp
  then show ?thesis using assms by simp
qed

lemma flip_halves_odd:
  assumes "shape x ! axis = 2 * k + 1" "0 < k"
  shows "batch_flip_halves x axis = Inr (cat (narrow x axis (k + 1) k) (narrow x axis 0 (k + 1)) axis)"
  by (simp add: batch_flip_halves_def chunk_odd [OF assms] Let_def)

lemma shift_roundtrip_odd:
  "tensor_ok \<lparr> shape = [1, 3, 2, 2], entries = [[[[1, 2], [3, 4]], [[5, 6], [7, 8]], [[9, 10], [11, 12]]]] \<rparr> \<and>
   bind_err (batch_fftshift2d \<lparr> shape = [1, 3, 2, 2], entries = [[[[1, 2], [3, 4]], [[5, 6], [7, 8]], [[9, 10], [11, 12]]]] \<rparr>)
     batch_ifftshift2d
   = Inr \<lparr> shape = [1, 3, 2, 2], entries = [[[[5, 6], [7, 8]], [[9, 10], [11, 12]], [[1, 2], [3, 4]]]] \<rparr>"
proof -
  let ?x = "\<lparr> shape = [1, 3, 2, 2], entries = [[[[1, 2], [3, 4]], [[5, 6], [7, 8]], [[9, 10], [11, 12]]]] \<rparr> :: tensor4"
  let ?x1 = "\<lparr> shape = [1, 3, 2, 2], entries = [[[[9, 10], [11, 12]], [[1, 2], [3, 4]], [[5, 6], [7, 8]]]] \<rparr> :: tensor4"
  let ?x2 = "\<lparr> shape = [1, 3, 2, 2], entries = [[[[11, 12], [9, 10]], [[3, 4], [1, 2]], [[7, 8], [5, 6]]]] \<rparr> :: tensor4"
  let ?x3 = "\<lparr> shape = [1, 3, 2, 2], entries = [[[[5, 6], [7, 8]], [[9, 10], [11, 12]], [[1, 2], [3, 4]]]] \<rparr> :: tensor4"
  have f1: "batch_flip_halves ?x 1 = Inr ?x1"
    by (subst flip_halves_odd [of _ _ 1]) (simp_all add: cat_def narrow_def)
  have f2: "batch_flip_halves ?x1 2 = Inr ?x2"
    by (subst flip_halves_value [of _ _ 1]) (simp_all add: cat_def narrow_def)
  have b2: "batch_flip_halves ?x2 2 = Inr ?x1"
    by (subst flip_halves_value [of _ _ 1]) (simp_all add: cat_def narrow_def)
  have b1: "batch_flip_halves ?x1 1 = Inr ?x3"
    by (subst flip_halves_odd [of _ _ 1]) (simp_all add: cat_def narrow_def)
  have c: "length (shape ?x) = 4" "last (shape ?x) = 2" by simp_all
  have c2: "length (shape ?x2) = 4" "last (shape ?x2) = 2" by simp_all
  have fwd: "batch_fftshift2d ?x = Inr ?x2"
    unfolding batch_fftshift2d_def by (simp only: c f1 f2 bind_err_Inr if_False simp_thms)
  have bwd: "batch_ifftshift2d ?x2 = Inr ?x3"
    unfolding batch_ifftshift2d_def by (simp only: c2 b1 b2 bind_err_Inr if_False simp_thms)
  have ok: "tensor_ok ?x" by (simp add: tensor_ok_def)
  show ?thesis by (simp only: fwd bwd bind_err_Inr ok simp_thms)
qed

lemma flip_halves_single:
  "batch_flip_halves \<lparr> shape = [1, 1, 2, 2], entries = [[[[1, 2], [3, 4]]]] \<rparr> 1 = Inl IndexError"
  by (simp add: batch_flip_halves_def chunk_def Let_def)

section \<open>The angular profile and the phase factors\<close>

declare build_levels.simps [simp del]

lemma nth_map_upto: "k < nat (j - i + 1) \<Longrightarrow> map f [i..j] ! k = f (i + int k)"
  by (simp add: nth_upto)

lemma length_Xcosn: "length Xcosn = 3075"
  unfolding Xcosn_def lutsize_def length_map length_upto by simp

lemma length_alpha: "length alpha = 3075"
  by (simp add: alpha_def length_Xcosn)

lemma nth_Xcosn: "k < 3075 \<Longrightarrow> Xcosn ! k = pi * (real k - 2049) / 1024"
  unfolding Xcosn_def lutsize_def by (subst nth_map_upto) simp_all

lemma nth_alpha: "k < 3075 \<Longrightarrow> alpha ! k = py_mod (Xcosn ! k + pi) (2 * pi) - pi"
  by (simp add: alpha_def length_Xcosn)

lemma map2_factor:
  "length xs = length ys \<Longrightarrow> (\<And>x y. f x y = g (h x) y) \<Longrightarrow>
   map2 f xs ys = map2 g (map h xs) ys"
  by (induction xs ys rule: list_induct2) auto

lemma Ycosn_build_reconstruct:
  "Ycosn_build order c =
     map2 (\<lambda>y a. 2 * (if \<bar>a\<bar> < pi / 2 then 1 else 0) * y) (Ycosn_reconstruct order c) alpha"
  unfolding Ycosn_build_def Ycosn_reconstruct_def
  by (rule map2_factor) (simp_all add: length_Xcosn length_alpha)

lemma phase_adjoint: "phase_build self * phase_reconstruct self = 1"
proof -
  have "(- \<i>) ^ n * \<i> ^ n = 1" for n
    by (simp flip: power_mult_distrib)
  then show ?thesis by (simp add: phase_build_def phase_reconstruct_def)
qed

lemma phase_cnj: "phase_reconstruct self = cnj (phase_build self)"
  by (simp add: phase_build_def phase_reconstruct_def)

text \<open>
  Claim C6, as the code has it. The angular profile of the builder is the profile of the
  reconstructor multiplied by 2 and cut to the support \<open>\<bar>\<alpha>\<bar> < \<pi>/2\<close>, where \<open>\<alpha>\<close> is the
  abscissa wrapped to \<open>[-\<pi>, \<pi>)\<close>; the reconstructor's profile
  \<open>sqrt const \<cdot> cos \<theta> ^ order\<close> has neither the factor 2 nor the cut. The phase factors are
  \<open>(-\<i>) ^ (nbands - 1)\<close> in the builder and \<open>\<i> ^ order\<close> in the reconstructor; they
  are conjugate and their product is 1.
\<close>

theorem angular_profiles:
  "Ycosn_build order c =
     map2 (\<lambda>y a. 2 * (if \<bar>a\<bar> < pi / 2 then 1 else 0) * y) (Ycosn_reconstruct order c) alpha
   \<and> phase_build self = (- \<i>) ^ nat (nbands self - 1)
   \<and> phase_reconstruct self = \<i> ^ nat (nbands self - 1)
   \<and> phase_reconstruct self = cnj (phase_build self)
   \<and> phase_build self * phase_reconstruct self = 1"
  using Ycosn_build_reconstruct phase_adjoint phase_cnj
  by (simp add: phase_build_def phase_reconstruct_def)

lemma angular_const_4: "angular_const 4 = Inr (4 / 5)"
  by (simp add: angular_const_def np_power_int_def factorial_def fact_numeral)

lemma alpha_2049: "alpha ! 2049 = 0"
proof -
  have "py_mod pi (2 * pi) = pi"
    by (simp add: py_mod_def)
  then show ?thesis by (simp add: nth_alpha nth_Xcosn)
qed

lemma alpha_3073: "alpha ! 3073 = - pi"
proof -
  have "py_mod (2 * pi) (2 * pi) = 0"
    by (simp add: py_mod_def)
  then show ?thesis by (simp add: nth_alpha nth_Xcosn)
qed

lemma Ycosn_build_nth:
  "k < 3075 \<Longrightarrow> Ycosn_build order c ! k =
     2 * sqrt c * cos (Xcosn ! k) ^ nat order * (if \<bar>alpha ! k\<bar> < pi / 2 then 1 else 0)"
  by (simp add: Ycosn_build_def length_Xcosn length_alpha)

lemma Ycosn_reconstruct_nth:
  "k < 3075 \<Longrightarrow> Ycosn_reconstruct order c ! k = sqrt c * cos (Xcosn ! k) ^ nat order"
  by (simp add: Ycosn_reconstruct_def length_Xcosn)

text \<open>
  Claim C6 as stated fails: with the default four orientations the constant is 4/5, and
  the two profiles differ at \<open>\<theta> = 0\<close> (entry 2049 of the table: \<open>2 \<cdot> sqrt (4/5)\<close> against
  \<open>sqrt (4/5)\<close>) and at \<open>\<theta> = \<pi>\<close> (entry 3073: 0 against \<open>- sqrt (4/5)\<close>).
\<close>

theorem angular_profiles_differ:
  "angular_const 4 = Inr (4 / 5)
   \<and> Ycosn_build 3 (4 / 5) ! 2049 = 2 * sqrt (4 / 5)
   \<and> Ycosn_reconstruct 3 (4 / 5) ! 2049 = sqrt (4 / 5)
   \<and> Ycosn_build 3 (4 / 5) ! 3073 = 0
   \<and> Ycosn_reconstruct 3 (4 / 5) ! 3073 = - sqrt (4 / 5)
   \<and> Ycosn_build 3 (4 / 5) \<noteq> Ycosn_reconstruct 3 (4 / 5)"
proof -
  have a: "Ycosn_build 3 (4 / 5) ! 2049 = 2 * sqrt (4 / 5)"
    by (simp add: Ycosn_build_nth alpha_2049 nth_Xcosn)
  have b: "Ycosn_reconstruct 3 (4 / 5) ! 2049 = sqrt (4 / 5)"
    by (simp add: Ycosn_reconstruct_nth nth_Xcosn)
  have c: "Ycosn_build 3 (4 / 5) ! 3073 = 0"
    by (simp add: Ycosn_build_nth alpha_3073)
  have d: "Ycosn_reconstruct 3 (4 / 5) ! 3073 = - sqrt (4 / 5)"
    by (simp add: Ycosn_reconstruct_nth nth_Xcosn numeral_3_eq_3)
  have "Ycosn_build 3 (4 / 5) ! 3073 \<noteq> Ycosn_reconstruct 3 (4 / 5) ! 3073"
    unfolding c d by simp
  then have e: "Ycosn_build 3 (4 / 5) \<noteq> Ycosn_reconstruct 3 (4 / 5)" by auto
  show ?thesis using angular_const_4 a b c d e by simp
qed

section \<open>Running the model on small arrays\<close>

subsection \<open>Arrays of one entry\<close>

lemma np_shape_single [simp]: "np_shape [[x]] = (1, 1)"
  by (simp add: np_shape_def)

lemma broadcast2_single [simp]: "broadcast2 f [[x]] [[y]] = Inr [[f x y]]"
  by (simp add: broadcast2_def broadcast_dim_def)

lemma dft2_single [simp]: "dft2 s [[x]] = [[x]]"
  by (simp add: dft2_def)

lemma fft2_single [simp]: "fft2 [[x]] = Inr [[x]]"
  by (simp add: fft2_def)

lemma ifft2_single [simp]: "ifft2 [[x]] = Inr [[x]]"
  by (simp add: ifft2_def)

lemma roll_single [simp]: "roll s [x] = [x]"
  by (simp add: roll_def Let_def)

lemma fftshift_single [simp]: "fftshift [[x]] = [[x]]"
  by (simp add: fftshift_def)

lemma ifftshift_single [simp]: "ifftshift [[x]] = [[x]]"
  by (simp add: ifftshift_def)

subsection \<open>The crop window\<close>

lemma ceiling_half_up: "\<lceil>(real d + 1 / 2) / 2\<rceil> = int (d div 2) + 1"
proof -
  have "real d = 2 * real (d div 2) + real (d mod 2)"
    by (metis of_nat_add of_nat_mult of_nat_numeral mult_div_mod_eq)
  moreover have "d mod 2 = 0 \<or> d mod 2 = 1" by auto
  ultimately show ?thesis
    by (intro ceiling_unique) auto
qed

lemma ceiling_half_down: "\<lceil>(real d - 1 / 2) / 2\<rceil> = int ((d + 1) div 2)"
proof -
  have "real d = 2 * real (d div 2) + real (d mod 2)"
    by (metis of_nat_add of_nat_mult of_nat_numeral mult_div_mod_eq)
  moreover have "d mod 2 = 0 \<and> (d + 1) div 2 = d div 2 \<or> d mod 2 = 1 \<and> (d + 1) div 2 = d div 2 + 1"
    by presburger
  ultimately show ?thesis
    by (intro ceiling_unique) auto
qed

lemma half_facts:
  fixes d :: nat
  shows "d div 2 + (d + 1) div 2 = d" and "(d + 1) div 2 div 2 \<le> d div 2"
proof -
  show "d div 2 + (d + 1) div 2 = d" by linarith
  have "(d + 1) div 2 \<le> d" by linarith
  then show "(d + 1) div 2 div 2 \<le> d div 2" by (rule div_le_mono)
qed

lemma low_ind_start_eq: "low_ind_start d = int (d div 2 - (d + 1) div 2 div 2)"
proof -
  have "\<lceil>(real_of_int (int ((d + 1) div 2)) + 1 / 2) / 2\<rceil> = int ((d + 1) div 2 div 2) + 1"
    using ceiling_half_up [of "(d + 1) div 2"] by simp
  then have "low_ind_start d = int (d div 2) - int ((d + 1) div 2 div 2)"
    by (simp add: low_ind_start_def ceiling_half_up ceiling_half_down)
  then show ?thesis using half_facts(2) [of d] by linarith
qed

lemma low_ind_end_eq: "low_ind_end d = int (d div 2 - (d + 1) div 2 div 2 + (d + 1) div 2)"
  unfolding low_ind_end_def low_ind_start_eq ceiling_half_down by linarith

lemma crop_window_inside: "d div 2 - (d + 1) div 2 div 2 + (d + 1) div 2 \<le> (d::nat)"
  using half_facts [of d] by linarith

lemma clip_index_nat: "k \<le> n \<Longrightarrow> clip_index (int k) n = k"
  by (simp add: clip_index_def)

lemma clip_low_ind_start: "clip_index (low_ind_start d) d = d div 2 - (d + 1) div 2 div 2"
  unfolding low_ind_start_eq by (rule clip_index_nat) linarith

lemma clip_low_ind_end:
  "clip_index (low_ind_end d) d = d div 2 - (d + 1) div 2 div 2 + (d + 1) div 2"
  unfolding low_ind_end_eq by (rule clip_index_nat) (rule crop_window_inside)

lemma py_slice_window:
  assumes "length xs = d"
  shows "py_slice (low_ind_start d) (low_ind_end d) xs =
         take ((d + 1) div 2) (drop (d div 2 - (d + 1) div 2 div 2) xs)"
proof -
  have "py_slice (low_ind_start d) (low_ind_end d) xs =
        take (clip_index (low_ind_end d) d - clip_index (low_ind_start d) d)
          (drop (clip_index (low_ind_start d) d) xs)"
    by (simp add: py_slice_def Let_def assms)
  also have "clip_index (low_ind_end d) d - clip_index (low_ind_start d) d = (d + 1) div 2"
    unfolding clip_low_ind_start clip_low_ind_end by linarith
  finally show ?thesis unfolding clip_low_ind_start .
qed

lemma length_py_slice_window:
  assumes "length xs = d"
  shows "length (py_slice (low_ind_start d) (low_ind_end d) xs) = (d + 1) div 2"
proof -
  have "(d + 1) div 2 \<le> d - (d div 2 - (d + 1) div 2 div 2)"
    using half_facts [of d] by linarith
  then show ?thesis using assms by (simp add: py_slice_window)
qed

lemma crop_single [simp]: "crop (Suc 0, Suc 0) [[x]] = [[x]]"
proof -
  have a: "py_slice (low_ind_start (Suc 0)) (low_ind_end (Suc 0)) [y] = [y]" for y :: 'b
    by (subst py_slice_window [of _ "Suc 0"]) simp_all
  show ?thesis by (simp add: crop_def slice2_def a)
qed

declare reconstruct_levels.simps [simp del]

subsection \<open>The collaborator instance\<close>

lemma pointOp_flat [simp]: "pointOp flat_utils im Ylut Xlut = map (map (\<lambda>x. 1)) im"
  by (simp add: pointOp_def flat_utils_def)

lemma prepare_grid_flat_1 [simp]: "prepare_grid flat_utils (Suc 0) (Suc 0) = ([[0]], [[0]])"
  by (simp add: prepare_grid_def flat_utils_def)

lemma rcosFn_flat [simp]: "rcosFn flat_utils w p = ([- 1, 0], [0, 1])"
  by (simp add: flat_utils_def)

lemma times_mask_single [simp]: "times_mask [[z]] [[m]] = Inr [[z * complex_of_real m]]"
  by (simp add: times_mask_def)

lemma plus_array_single [simp]: "plus_array [[z]] [[w]] = Inr [[z + w]]"
  by (simp add: plus_array_def)

lemma angular_const_1 [simp]: "angular_const 1 = Inr 1"
  by (simp add: angular_const_def np_power_int_def factorial_def)

subsection \<open>The radial shift\<close>

lemma build_level_Xrcos:
  assumes "build_level mu self lodft log_rad angle Xrcos Yrcos = Inr r"
  shows "snd (snd (snd (snd r))) = map (\<lambda>x. x - 1) Xrcos"
  using assms
  by (auto simp: build_level_def Let_def bind_err_def split: sum.splits)

lemma build_band_single:
  "build_band flat_utils \<lparr>nbands = 1, height = h, scale_factor = s\<rparr> [[z]] [[a]] [[1]] Y b = Inr [[z]]"
  by (simp add: build_band_def phase_build_def)

lemma build_level_single:
  "build_level flat_utils \<lparr>nbands = 1, height = h, scale_factor = s\<rparr> [[z]] [[l]] [[a]] X Y
   = Inr ([[[z]]], [[z]], [[l]], [[a]], map (\<lambda>x. x - 1) X)"
  by (simp add: build_level_def build_band_single)

text \<open>
  Claim C5 at \<open>scale_factor = 4\<close>. The claim asks for the shift \<open>log2 4 = 2\<close>, which would
  turn the abscissa \<open>[0]\<close> into \<open>[-2]\<close>; the NumPy builder hands \<open>[-1]\<close> to the next level,
  whatever the scale factor is (\<open>build_level_Xrcos\<close>).
\<close>

theorem numpy_radial_shift_ignores_scale_factor:
  "build_level flat_utils \<lparr>nbands = 1, height = 3, scale_factor = 4\<rparr> [[1]] [[0]] [[0]] [0] [1]
     = Inr ([[[1]]], [[1]], [[0]], [[0]], [- 1])
   \<and> map (\<lambda>x. x - log 2 (scale_factor \<lparr>nbands = 1, height = 3, scale_factor = 4\<rparr>)) [0] = [- 2]"
proof -
  have "log 2 4 = 2"
    using log_pow_cancel [of 2 2] by simp
  then show ?thesis by (simp add: build_level_single)
qed

subsection \<open>The final conversion of reconstruct\<close>


lemma zeros_single [simp]: "zeros (Suc 0, Suc 0) = [[0]]"
  by (simp add: zeros_def)












section \<open>Which errors the operations raise\<close>

lemma bind_err_Inl_iff:
  "bind_err r f = Inl e \<longleftrightarrow> r = Inl e \<or> (\<exists>v. r = Inr v \<and> f v = Inl e)"
  by (cases r) simp_all

lemma bind_err_Inr_iff:
  "bind_err r f = Inr y \<longleftrightarrow> (\<exists>v. r = Inr v \<and> f v = Inr y)"
  by (cases r) simp_all

lemma broadcast_dim_error: "broadcast_dim m n = Inl e \<Longrightarrow> e = ValueError"
  by (simp add: broadcast_dim_def split: if_splits)

lemma broadcast2_error: "broadcast2 f a b = Inl e \<Longrightarrow> e = ValueError"
  by (auto simp: broadcast2_def Let_def bind_err_Inl_iff dest: broadcast_dim_error)

lemma times_mask_error: "times_mask a m = Inl e \<Longrightarrow> e = ValueError"
  unfolding times_mask_def by (rule broadcast2_error)

lemma plus_array_error: "plus_array a b = Inl e \<Longrightarrow> e = ValueError"
  unfolding plus_array_def by (rule broadcast2_error)

lemma fft2_error: "fft2 a = Inl e \<Longrightarrow> e = ValueError"
  by (simp add: fft2_def split: if_splits)

lemma ifft2_error: "ifft2 a = Inl e \<Longrightarrow> e = ValueError"
  by (simp add: ifft2_def split: if_splits)

lemma angular_const_error: "angular_const nb = Inl e \<Longrightarrow> e = ValueError"
  by (auto simp: angular_const_def np_power_int_def Let_def bind_err_Inl_iff split: if_splits)

lemma assign_slice2_error: "assign_slice2 res rows cols v = Inl e \<Longrightarrow> e = ValueError"
  by (simp add: assign_slice2_def Let_def split: if_splits)

lemma map_err_error:
  assumes "map_err f xs = Inl e" and "\<And>x e. f x = Inl e \<Longrightarrow> P e"
  shows "P e"
  using assms(1)
proof (induction xs arbitrary: e)
  case Nil
  then show ?case by simp
next
  case (Cons x xs)
  then show ?case
    by (auto simp: bind_err_Inl_iff intro: assms(2))
qed

lemma fold_err_error:
  assumes "fold_err f xs acc = Inl e" and "\<And>x acc e. f x acc = Inl e \<Longrightarrow> P e"
  shows "P e"
  using assms(1)
proof (induction xs arbitrary: acc)
  case Nil
  then show ?case by simp
next
  case (Cons x xs)
  then show ?case
    by (auto simp: bind_err_Inl_iff intro: assms(2))
qed

lemma reconstruct_band_error:
  "reconstruct_band mu self bands angle himask Ycosn b acc = Inl e \<Longrightarrow> e = ValueError \<or> e = IndexError"
  by (auto simp: reconstruct_band_def Let_def bind_err_Inl_iff split: if_splits
      dest: fft2_error times_mask_error plus_array_error)

lemma reconstruct_bands_error:
  "fold_err (reconstruct_band mu self bands angle himask Ycosn) xs acc = Inl e \<Longrightarrow>
   e = ValueError \<or> e = IndexError"
  by (erule fold_err_error) (rule reconstruct_band_error)

lemma reconstruct_levels_error:
  "reconstruct_levels mu self cs log_rad Xrcos Yrcos angle = Inl e \<Longrightarrow>
   e = ValueError \<or> e = IndexError \<or> e = TypeError"
proof (induction cs arbitrary: log_rad Xrcos angle e)
  case Nil
  then show ?case
    by (auto simp: reconstruct_levels.simps bind_err_Inl_iff dest: angular_const_error)
next
  case (Cons c cs)
  note IH = Cons.IH and prems = Cons.prems
  show ?case
  proof (cases cs)
    case Nil
    with prems show ?thesis
      by (cases c) (auto simp: reconstruct_levels.simps bind_err_Inl_iff dest: fft2_error)
  next
    case tail: (Cons c' cs')
    show ?thesis
    proof (cases c)
      case (Real_array a)
      with prems tail show ?thesis
        by (auto simp: reconstruct_levels.simps bind_err_Inl_iff dest: angular_const_error)
    next
      case (Orientations bands)
      with prems tail show ?thesis
        by (auto simp: reconstruct_levels.simps Let_def bind_err_Inl_iff split: if_splits
            dest: angular_const_error reconstruct_bands_error IH [unfolded tail] times_mask_error
              assign_slice2_error plus_array_error)
    qed
  qed
qed

section \<open>The orientation check of reconstruct\<close>

lemma reconstruct_transform_error:
  assumes "reconstruct_transform mu self (Coeff_list cs) = Inl (PyException m)"
  shows "2 \<le> length cs \<and> nbands self \<noteq> int (len_level (cs ! 1)) \<and>
         m = ''Unmatched number of orientations''"
proof (rule ccontr)
  assume n: "\<not> ?thesis"
  have "reconstruct_transform mu self (Coeff_list cs) \<noteq> Inl (PyException m)"
  proof (cases "length cs < 2")
    case True
    then show ?thesis by (simp add: reconstruct_transform_def)
  next
    case False
    show ?thesis
    proof (cases "nbands self \<noteq> int (len_level (cs ! 1))")
      case True
      with False n show ?thesis by (simp add: reconstruct_transform_def)
    next
      case same: False
      show ?thesis
      proof (cases "cs ! 0")
        case (Orientations bs)
        with False same show ?thesis by (simp add: reconstruct_transform_def)
      next
        case (Real_array hi)
        with False same show ?thesis
          by (auto simp: reconstruct_transform_def Let_def bind_err_Inl_iff
              dest: reconstruct_levels_error fft2_error times_mask_error plus_array_error ifft2_error)
      qed
    qed
  qed
  with assms show False by simp
qed

lemma reconstruct_Inl_iff:
  "reconstruct mu self coeff = Inl e \<longleftrightarrow> reconstruct_transform mu self coeff = Inl e"
  by (auto simp: reconstruct_def bind_err_Inl_iff)

text \<open>
  Claim C4. On a coefficient list with at least two levels, \<^verbatim>\<open>reconstruct\<close> raises
  \<^verbatim>\<open>Exception("Unmatched number of orientations")\<close> when \<^verbatim>\<open>len(coeff[1])\<close> differs from
  \<^verbatim>\<open>nbands\<close>, whatever the collaborator and the other levels are (the check comes first),
  and raises no \<^verbatim>\<open>Exception\<close> when they are equal.
\<close>

theorem reconstruct_orientation_check:
  assumes "2 \<le> length cs"
  shows "(nbands self \<noteq> int (len_level (cs ! 1)) \<longrightarrow>
            reconstruct mu self (Coeff_list cs) = Inl (PyException ''Unmatched number of orientations''))
       \<and> (nbands self = int (len_level (cs ! 1)) \<longrightarrow>
            (\<forall>m. reconstruct mu self (Coeff_list cs) \<noteq> Inl (PyException m)))"
proof (intro conjI impI allI)
  assume "nbands self \<noteq> int (len_level (cs ! 1))"
  with assms show "reconstruct mu self (Coeff_list cs) = Inl (PyException ''Unmatched number of orientations'')"
    by (simp add: reconstruct_def reconstruct_transform_def)
next
  fix m
  assume "nbands self = int (len_level (cs ! 1))"
  then show "reconstruct mu self (Coeff_list cs) \<noteq> Inl (PyException m)"
    using reconstruct_transform_error [of mu self cs m] by (auto simp: reconstruct_Inl_iff)
qed

theorem reconstruct_orientation_check_witness:
  "reconstruct flat_utils \<lparr>nbands = 4, height = 3, scale_factor = 2\<rparr>
     (Coeff_list [Real_array [[0]], Orientations [[[0]], [[0]], [[0]]], Real_array [[0]]])
     = Inl (PyException ''Unmatched number of orientations'')
   \<and> reconstruct flat_utils \<lparr>nbands = 1, height = 3, scale_factor = 2\<rparr>
     (Coeff_list [Real_array [[0]], Orientations [[[0]]], Real_array [[0]]])
     \<noteq> Inl (PyException ''Unmatched number of orientations'')"
proof -
  let ?cs3 = "[Real_array [[0]], Orientations [[[0]], [[0]], [[0]]], Real_array [[0]]]"
  let ?cs1 = "[Real_array [[0]], Orientations [[[0]]], Real_array [[0]]]"
  have a: "2 \<le> length ?cs3" and b: "2 \<le> length ?cs1" by simp_all
  show ?thesis
    using reconstruct_orientation_check [OF a, of "\<lparr>nbands = 4, height = 3, scale_factor = 2\<rparr>" flat_utils]
      reconstruct_orientation_check [OF b, of "\<lparr>nbands = 1, height = 3, scale_factor = 2\<rparr>" flat_utils]
    by (simp add: len_level_def)
qed


section \<open>Shapes\<close>

lemma is_arrayI: "length a = r \<Longrightarrow> (\<And>row. row \<in> set a \<Longrightarrow> length row = c) \<Longrightarrow> is_array r c a"
  by (simp add: is_array_def)

lemma is_array_length: "is_array r c a \<Longrightarrow> length a = r"
  by (simp add: is_array_def)

lemma is_array_row: "is_array r c a \<Longrightarrow> i < r \<Longrightarrow> length (a ! i) = c"
  by (simp add: is_array_def)

lemma np_shape_is_array: "is_array r c a \<Longrightarrow> 0 < r \<Longrightarrow> np_shape a = (r, c)"
  by (cases a) (auto simp: is_array_def np_shape_def)

lemma is_array_table: "is_array r c (map (\<lambda>i. map (f i) [0..<c]) [0..<r])"
  by (auto simp: is_array_def)

lemma is_array_map: "is_array r c a \<Longrightarrow> is_array r c (map (map f) a)"
  by (auto simp: is_array_def)

lemma is_array_zeros: "is_array r c (zeros (r, c))"
  by (auto simp: is_array_def zeros_def)

lemma is_array_as_complex: "is_array r c a \<Longrightarrow> is_array r c (as_complex a)"
  unfolding as_complex_def by (rule is_array_map)

lemma is_array_real_part: "is_array r c a \<Longrightarrow> is_array r c (real_part a)"
  unfolding real_part_def by (rule is_array_map)

lemma is_array_pointOp: "is_array r c g \<Longrightarrow> is_array r c (pointOp mu g Y X)"
  unfolding pointOp_def by (rule is_array_map)

lemma is_array_prepare_grid:
  "is_array m n (fst (prepare_grid mu m n))" "is_array m n (snd (prepare_grid mu m n))"
  by (simp_all add: prepare_grid_def is_array_table)

lemma length_roll [simp]: "length (roll s xs) = length xs"
  by (auto simp: roll_def Let_def)

lemma set_roll [simp]: "set (roll s xs) = set xs"
proof (cases "xs = []")
  case True
  then show ?thesis by (simp add: roll_def)
next
  case False
  have "set (drop k xs @ take k xs) = set xs" for k
    by (metis append_take_drop_id set_append sup_commute)
  with False show ?thesis by (simp add: roll_def Let_def)
qed

lemma is_array_fftshift: "is_array r c a \<Longrightarrow> is_array r c (fftshift a)"
  by (auto simp: is_array_def fftshift_def)

lemma is_array_ifftshift: "is_array r c a \<Longrightarrow> is_array r c (ifftshift a)"
  by (auto simp: is_array_def ifftshift_def)

lemma broadcast2_same:
  assumes "is_array r c a" "is_array r c b" "0 < r"
  shows "\<exists>d. broadcast2 f a b = Inr d \<and> is_array r c d"
  using assms
  by (simp add: broadcast2_def np_shape_is_array broadcast_dim_def is_array_table)

lemma times_mask_same:
  assumes "is_array r c a" "is_array r c m" "0 < r"
  shows "\<exists>d. times_mask a m = Inr d \<and> is_array r c d"
  unfolding times_mask_def using assms by (rule broadcast2_same)

lemma fft2_same:
  assumes "is_array r c a" "0 < r" "0 < c"
  shows "\<exists>d. fft2 a = Inr d \<and> is_array r c d"
  using assms by (simp add: fft2_def dft2_def np_shape_is_array is_array_table)

lemma is_array_dft2:
  assumes "is_array r c a" "0 < r"
  shows "is_array r c (dft2 s a)"
  using assms by (simp add: dft2_def np_shape_is_array is_array_table)

lemma ifft2_same:
  assumes "is_array r c a" "0 < r" "0 < c"
  shows "\<exists>d. ifft2 a = Inr d \<and> is_array r c d"
proof -
  have s: "np_shape a = (r, c)" using assms(1,2) by (rule np_shape_is_array)
  have "ifft2 a = Inr (map (map (\<lambda>z. z / of_nat (r * c))) (dft2 1 a))"
    using assms by (simp add: ifft2_def s)
  moreover have "is_array r c (map (map (\<lambda>z. z / of_nat (r * c))) (dft2 1 a))"
    using assms(1,2) by (intro is_array_map is_array_dft2)
  ultimately show ?thesis by blast
qed

lemma is_array_crop:
  assumes "is_array r c a"
  shows "is_array ((r + 1) div 2) ((c + 1) div 2) (crop (r, c) a)"
proof (rule is_arrayI)
  show "length (crop (r, c) a) = (r + 1) div 2"
    using assms by (simp add: crop_def slice2_def length_py_slice_window is_array_def)
next
  fix row
  assume "row \<in> set (crop (r, c) a)"
  then obtain row' where "row' \<in> set a" and "row = py_slice (low_ind_start c) (low_ind_end c) row'"
    by (auto simp: crop_def slice2_def py_slice_def Let_def dest: in_set_takeD in_set_dropD)
  with assms show "length row = (c + 1) div 2"
    by (simp add: length_py_slice_window is_array_def)
qed


section \<open>The builder succeeds, and the shapes of its levels\<close>

lemma map_err_success:
  assumes "\<And>x. x \<in> set xs \<Longrightarrow> \<exists>y. f x = Inr y \<and> P y"
  shows "\<exists>ys. map_err f xs = Inr ys \<and> length ys = length xs \<and> (\<forall>y \<in> set ys. P y)"
  using assms
proof (induction xs)
  case Nil
  then show ?case by simp
next
  case (Cons x xs)
  then obtain y where y: "f x = Inr y" "P y" by auto
  from Cons obtain ys where ys: "map_err f xs = Inr ys" "length ys = length xs" "\<forall>y \<in> set ys. P y"
    by auto
  show ?case using y ys by simp
qed

lemma angular_const_success: "1 \<le> nb \<Longrightarrow> \<exists>c. angular_const nb = Inr c"
  by (simp add: angular_const_def np_power_int_def Let_def)

lemma build_band_success:
  assumes "is_array r c lodft" "is_array r c angle" "is_array r c himask" "0 < r" "0 < c"
  shows "\<exists>band. build_band mu self lodft angle himask Ycosn b = Inr band \<and> is_array r c band"
proof -
  let ?am = "pointOp mu angle Ycosn (map (\<lambda>x. x + pi * real b / real_of_int (nbands self)) Xcosn)"
  have 1: "is_array r c (map (map (\<lambda>z. phase_build self * z)) lodft)"
    using assms(1) by (rule is_array_map)
  have 2: "is_array r c ?am" using assms(2) by (rule is_array_pointOp)
  from times_mask_same [OF 1 2 assms(4)] obtain d
    where d: "times_mask (map (map (\<lambda>z. phase_build self * z)) lodft) ?am = Inr d" "is_array r c d"
    by blast
  from times_mask_same [OF d(2) assms(3,4)] obtain d'
    where d': "times_mask d himask = Inr d'" "is_array r c d'" by blast
  from ifft2_same [OF is_array_ifftshift [OF d'(2)] assms(4,5)] obtain band
    where "ifft2 (ifftshift d') = Inr band" "is_array r c band" by blast
  with d d' show ?thesis by (simp add: build_band_def)
qed

lemma build_level_success:
  assumes "is_array r c lodft" "is_array r c log_rad" "is_array r c angle" "0 < r" "0 < c"
    and "1 \<le> nbands self"
  shows "\<exists>os lodft' log_rad' angle'.
           build_level mu self lodft log_rad angle Xrcos Yrcos
             = Inr (os, lodft', log_rad', angle', map (\<lambda>x. x - 1) Xrcos) \<and>
           length os = nat (nbands self) \<and> (\<forall>band \<in> set os. is_array r c band) \<and>
           is_array ((r + 1) div 2) ((c + 1) div 2) lodft' \<and>
           is_array ((r + 1) div 2) ((c + 1) div 2) log_rad' \<and>
           is_array ((r + 1) div 2) ((c + 1) div 2) angle'"
proof -
  let ?X = "map (\<lambda>x. x - 1) Xrcos"
  let ?himask = "pointOp mu log_rad Yrcos ?X"
  from angular_const_success [OF assms(6)] obtain cnst
    where cnst: "angular_const (nbands self) = Inr cnst" by blast
  let ?Ycosn = "Ycosn_build (nbands self - 1) cnst"
  have hm: "is_array r c ?himask" using assms(2) by (rule is_array_pointOp)
  have "\<exists>os. map_err (build_band mu self lodft angle ?himask ?Ycosn) [0..<nat (nbands self)] = Inr os
          \<and> length os = length [0..<nat (nbands self)] \<and> (\<forall>band \<in> set os. is_array r c band)"
    by (rule map_err_success) (rule build_band_success [OF assms(1) assms(3) hm assms(4,5)])
  then obtain os
    where os: "map_err (build_band mu self lodft angle ?himask ?Ycosn) [0..<nat (nbands self)] = Inr os"
      "length os = nat (nbands self)" "\<forall>band \<in> set os. is_array r c band"
    by auto
  have sh: "np_shape lodft = (r, c)" using assms(1,4) by (rule np_shape_is_array)
  let ?r' = "(r + 1) div 2" and ?c' = "(c + 1) div 2"
  have r': "0 < ?r'" using assms(4) by simp
  have cl: "is_array ?r' ?c' (crop (r, c) log_rad)" using assms(2) by (rule is_array_crop)
  have ca: "is_array ?r' ?c' (crop (r, c) angle)" using assms(3) by (rule is_array_crop)
  have cd: "is_array ?r' ?c' (crop (r, c) lodft)" using assms(1) by (rule is_array_crop)
  let ?lomask = "pointOp mu (crop (r, c) log_rad) (map (\<lambda>y. \<bar>sqrt (1 - y\<^sup>2)\<bar>) Yrcos) ?X"
  have lm: "is_array ?r' ?c' ?lomask" using cl by (rule is_array_pointOp)
  from times_mask_same [OF cd lm r'] obtain lodft'
    where lodft': "times_mask (crop (r, c) lodft) ?lomask = Inr lodft'" "is_array ?r' ?c' lodft'"
    by blast
  have "build_level mu self lodft log_rad angle Xrcos Yrcos
      = Inr (os, lodft', crop (r, c) log_rad, crop (r, c) angle, ?X)"
    by (simp add: build_level_def Let_def cnst os(1) sh lodft'(1))
  with os(2,3) lodft'(2) cl ca show ?thesis by blast
qed


lemma cropped_eq: "cropped d = (d + 1) div 2"
  unfolding cropped_def low_ind_end_eq low_ind_start_eq by linarith

lemma cropped_ceiling: "cropped d = nat \<lceil>(real d - 1 / 2) / 2\<rceil>"
  by (simp add: cropped_eq ceiling_half_down)

lemma cropped_pos: "0 < d \<Longrightarrow> 0 < cropped d"
  by (simp add: cropped_eq)

lemma level_axis_0 [simp]: "level_axis 0 d = d"
  by (simp add: level_axis_def)

lemma level_axis_Suc: "level_axis (Suc k) d = cropped (level_axis k d)"
  by (simp add: level_axis_def)

lemma level_axis_shift: "level_axis (Suc k) d = level_axis k (cropped d)"
  by (simp add: level_axis_def funpow_swap1)

lemma level_axis_lower: "2 ^ (n + k) \<le> d \<Longrightarrow> 2 ^ n \<le> level_axis k d"
proof (induction k arbitrary: d)
  case 0
  then show ?case by simp
next
  case (Suc k)
  have "(2::nat) ^ (n + k) \<le> cropped d"
    using Suc.prems by (simp add: cropped_eq)
  then show ?case unfolding level_axis_shift by (rule Suc.IH)
qed

lemma cropped_less: "2 \<le> d \<Longrightarrow> cropped d < d"
  by (simp add: cropped_eq)

lemma build_levels_success:
  assumes "is_array r c lodft" "is_array r c log_rad" "is_array r c angle" "0 < r" "0 < c"
    and "1 \<le> nbands self"
  shows "\<exists>coeff. build_levels mu self lodft log_rad angle Xrcos Yrcos h = Inr coeff \<and>
           length coeff = nat (max h 1) \<and> levels_ok (nbands self) r c coeff"
  using assms(1-5)
proof (induction "nat (h - 1)" arbitrary: h r c lodft log_rad angle Xrcos)
  case 0
  then have h: "h \<le> 1" by simp
  from ifft2_same [OF is_array_ifftshift [OF "0.prems"(1)] "0.prems"(4,5)] obtain lo0
    where "ifft2 (ifftshift lodft) = Inr lo0" "is_array r c lo0" by blast
  with h show ?case
    by (simp add: build_levels.simps is_array_real_part max_def)
next
  case (Suc n)
  then have h: "\<not> h \<le> 1" and n: "n = nat (h - 1 - 1)" by simp_all
  from build_level_success [OF Suc.prems assms(6), of mu Xrcos Yrcos]
  obtain os lodft' log_rad' angle'
    where step: "build_level mu self lodft log_rad angle Xrcos Yrcos
             = Inr (os, lodft', log_rad', angle', map (\<lambda>x. x - 1) Xrcos)"
      and os: "length os = nat (nbands self)" "\<forall>band \<in> set os. is_array r c band"
      and sh: "is_array (cropped r) (cropped c) lodft'" "is_array (cropped r) (cropped c) log_rad'"
        "is_array (cropped r) (cropped c) angle'"
    unfolding cropped_eq by blast
  from Suc.hyps(1) [OF n sh cropped_pos [OF Suc.prems(4)] cropped_pos [OF Suc.prems(5)]]
  obtain coeff
    where coeff: "build_levels mu self lodft' log_rad' angle' (map (\<lambda>x. x - 1) Xrcos) Yrcos (h - 1) = Inr coeff"
      "length coeff = nat (max (h - 1) 1)" "levels_ok (nbands self) (cropped r) (cropped c) coeff"
    by blast
  from coeff(2) h obtain l ls where ls: "coeff = l # ls" by (cases coeff) auto
  have "build_levels mu self lodft log_rad angle Xrcos Yrcos h = Inr (Orientations os # coeff)"
    using h by (subst build_levels.simps) (simp add: step coeff(1))
  moreover have "length (Orientations os # coeff) = nat (max h 1)"
    using coeff(2) h by simp
  moreover have "levels_ok (nbands self) r c (Orientations os # coeff)"
    using os coeff(3) by (simp add: ls list_all_iff)
  ultimately show ?case by blast
qed

lemma levels_ok_nth:
  assumes "levels_ok nb r c coeff"
  shows "(\<forall>k. Suc k < length coeff \<longrightarrow>
            (\<exists>bs. coeff ! k = Orientations bs \<and> length bs = nat nb \<and>
                  list_all (is_array (level_axis k r) (level_axis k c)) bs)) \<and>
         (\<exists>lo. coeff ! (length coeff - 1) = Real_array lo \<and>
               is_array (level_axis (length coeff - 1) r) (level_axis (length coeff - 1) c) lo)"
  using assms
proof (induction nb r c coeff rule: levels_ok.induct)
  case (1 nb r c lo)
  then show ?case by simp
next
  case (2 nb r c bs l ls)
  then have IH: "(\<forall>k. Suc k < length (l # ls) \<longrightarrow>
            (\<exists>bs. (l # ls) ! k = Orientations bs \<and> length bs = nat nb \<and>
                  list_all (is_array (level_axis k (cropped r)) (level_axis k (cropped c))) bs))"
    and last: "\<exists>lo. (l # ls) ! (length (l # ls) - 1) = Real_array lo \<and>
               is_array (level_axis (length (l # ls) - 1) (cropped r))
                 (level_axis (length (l # ls) - 1) (cropped c)) lo"
    and here: "length bs = nat nb" "list_all (is_array r c) bs"
    by simp_all
  show ?case
  proof (intro conjI allI impI)
    fix k
    assume k: "Suc k < length (Orientations bs # l # ls)"
    show "\<exists>bs'. (Orientations bs # l # ls) ! k = Orientations bs' \<and> length bs' = nat nb \<and>
                list_all (is_array (level_axis k r) (level_axis k c)) bs'"
    proof (cases k)
      case 0
      with here show ?thesis by simp
    next
      case (Suc j)
      with k IH show ?thesis by (simp add: level_axis_shift)
    qed
  next
    from last show "\<exists>lo. (Orientations bs # l # ls) ! (length (Orientations bs # l # ls) - 1) = Real_array lo \<and>
        is_array (level_axis (length (Orientations bs # l # ls) - 1) r)
          (level_axis (length (Orientations bs # l # ls) - 1) c) lo"
      by (simp add: level_axis_shift)
  qed
qed simp_all


section \<open>The pyramid that build returns\<close>

subsection \<open>Errors of the builder\<close>

lemma build_band_error: "build_band mu self lodft angle himask Ycosn b = Inl e \<Longrightarrow> e = ValueError"
  unfolding build_band_def Let_def
  by (auto simp: bind_err_Inl_iff dest: times_mask_error ifft2_error)

lemma build_level_error:
  assumes "build_level mu self lodft log_rad angle Xrcos Yrcos = Inl e"
  shows "e = ValueError"
proof -
  have bands: "\<And>f xs. map_err (build_band mu self lodft angle f xs) [0..<nat (nbands self)] = Inl e
      \<Longrightarrow> e = ValueError"
    by (erule map_err_error) (rule build_band_error)
  from assms show ?thesis
    unfolding build_level_def Let_def
    by (auto simp: bind_err_Inl_iff dest: angular_const_error times_mask_error bands)
qed

lemma build_levels_error:
  "build_levels mu self lodft log_rad angle Xrcos Yrcos h = Inl e \<Longrightarrow> e = ValueError"
proof (induction "nat (h - 1)" arbitrary: h lodft log_rad angle Xrcos)
  case 0
  then have "h \<le> 1" by simp
  with "0.prems" show ?case
    by (auto simp: build_levels.simps bind_err_Inl_iff dest: ifft2_error)
next
  case (Suc n)
  then have h: "\<not> h \<le> 1" and n: "n = nat (h - 1 - 1)" by simp_all
  from Suc.prems h
  have "build_level mu self lodft log_rad angle Xrcos Yrcos = Inl e
      \<or> (\<exists>lodft' log_rad' angle' Xrcos'.
            build_levels mu self lodft' log_rad' angle' Xrcos' Yrcos (h - 1) = Inl e)"
    by (subst (asm) build_levels.simps) (auto simp: bind_err_Inl_iff)
  then show ?case
    using build_level_error Suc.hyps(1) [OF n] by blast
qed

lemma set_level_error: "set_level pyr l c = Inl e \<Longrightarrow> e = IndexError"
  by (auto simp: set_level_def py_index_def Let_def bind_err_Inl_iff split: if_splits)

lemma set_levels_error: "set_levels pyr l cs = Inl e \<Longrightarrow> e = IndexError"
  by (induction cs arbitrary: pyr l) (auto simp: bind_err_Inl_iff dest: set_level_error)

subsection \<open>Filling the pyramid object\<close>

lemma set_level_success:
  "k < length (pyr_coeff pyr) \<Longrightarrow>
   set_level pyr (int k) c = Inr (pyr \<lparr> pyr_coeff := (pyr_coeff pyr)[k := Some c] \<rparr>)"
  by (simp add: set_level_def py_index_def Let_def)

lemma set_levels_success:
  "k + length cs \<le> length (pyr_coeff pyr) \<Longrightarrow>
   set_levels pyr (int k) cs =
     Inr (pyr \<lparr> pyr_coeff := take k (pyr_coeff pyr) @ map Some cs @ drop (k + length cs) (pyr_coeff pyr) \<rparr>)"
proof (induction cs arbitrary: pyr k)
  case Nil
  then show ?case by simp
next
  case (Cons c cs)
  let ?xs = "pyr_coeff pyr"
  let ?p = "pyr \<lparr> pyr_coeff := ?xs[k := Some c] \<rparr>"
  from Cons.prems have k: "k < length ?xs" by simp
  have step: "set_level pyr (int k) c = Inr ?p" using k by (rule set_level_success)
  have "Suc k + length cs \<le> length (pyr_coeff ?p)" using Cons.prems by simp
  from Cons.IH [OF this]
  have rest: "set_levels ?p (int (Suc k)) cs =
      Inr (?p \<lparr> pyr_coeff := take (Suc k) (pyr_coeff ?p) @ map Some cs @
                                drop (Suc k + length cs) (pyr_coeff ?p) \<rparr>)" .
  have t: "take (Suc k) (?xs[k := Some c]) = take k ?xs @ [Some c]"
    using k by (simp add: take_Suc_conv_app_nth)
  have d: "drop (Suc k + length cs) (?xs[k := Some c]) = drop (Suc k + length cs) ?xs"
    by simp
  have i: "int k + 1 = int (Suc k)" by simp
  show ?case
    by (simp only: set_levels.simps step bind_err_Inr i rest) (simp add: t)
qed

lemma set_levels_new_pyramid:
  assumes "length cs = nat h"
  shows "set_levels (new_pyramid h nb) 0 cs =
           Inr \<lparr> pyr_height = h, pyr_nbands = nb, pyr_coeff = map Some cs \<rparr>"
proof -
  have "0 + length cs \<le> length (pyr_coeff (new_pyramid h nb))"
    using assms by (simp add: new_pyramid_def)
  from set_levels_success [OF this] show ?thesis
    using assms by (simp add: new_pyramid_def)
qed

subsection \<open>The height that an image admits\<close>

lemma le_floor_log2_iff:
  assumes "0 < m"
  shows "int n \<le> \<lfloor>log 2 (real m)\<rfloor> \<longleftrightarrow> 2 ^ n \<le> m"
proof
  assume "int n \<le> \<lfloor>log 2 (real m)\<rfloor>"
  then have le: "real n \<le> log 2 (real m)" by (simp add: le_floor_iff)
  show "2 ^ n \<le> m"
  proof (rule ccontr)
    assume "\<not> 2 ^ n \<le> m"
    then have "m < 2 ^ n" by simp
    then have "log 2 (real m) < real n" using assms by (rule log2_of_power_less)
    with le show False by simp
  qed
next
  assume "2 ^ n \<le> m"
  then have "real n \<le> log 2 (real m)" by (rule le_log2_of_power)
  then show "int n \<le> \<lfloor>log 2 (real m)\<rfloor>" by (simp add: le_floor_iff)
qed

lemma admitted_height:
  assumes "2 \<le> h" "h \<le> \<lfloor>log 2 (real m)\<rfloor> - 2"
  shows "2 ^ (nat h + 2) \<le> m"
proof -
  have "m \<noteq> 0"
  proof
    assume "m = 0"
    with assms show False by (simp add: log_def)
  qed
  then have m: "0 < m" by simp
  have "int (nat h + 2) \<le> \<lfloor>log 2 (real m)\<rfloor>" using assms by simp
  with m show ?thesis by (simp only: le_floor_log2_iff)
qed

subsection \<open>The builder succeeds\<close>

lemma build_success:
  assumes im: "is_array H W im" and pos: "0 < H" "0 < W"
    and h: "2 \<le> height self" and nb: "1 \<le> nbands self"
    and mx: "height self \<le> \<lfloor>log 2 (real (min H W))\<rfloor> - 2"
  shows "\<exists>hi coeff.
           build mu self im = Inr \<lparr> pyr_height = height self, pyr_nbands = nbands self,
                                     pyr_coeff = map Some (Real_array hi # coeff) \<rparr> \<and>
           is_array H W hi \<and> length coeff = nat (height self - 1) \<and>
           levels_ok (nbands self) H W coeff"
proof -
  have shape: "np_shape im = (H, W)" using im pos(1) by (rule np_shape_is_array)
  have mhp: "max_height_pyr W H = Inr (\<lfloor>log 2 (real (min H W))\<rfloor> - 2)"
    using pos by (simp add: max_height_pyr_def min.commute)
  let ?log_rad = "fst (prepare_grid mu H W)" and ?angle = "snd (prepare_grid mu H W)"
  let ?Xrcos = "fst (rcosFn mu 1 (- (1 / 2)))"
  let ?Yrcos = "map sqrt (snd (rcosFn mu 1 (- (1 / 2))))"
  let ?YIrcos = "map (\<lambda>y. sqrt (1 - y\<^sup>2)) ?Yrcos"
  from fft2_same [OF is_array_as_complex [OF im] pos] obtain F
    where F: "fft2 (as_complex im) = Inr F" "is_array H W F" by blast
  have sh: "is_array H W (fftshift F)" using F(2) by (rule is_array_fftshift)
  from times_mask_same [OF sh is_array_pointOp [OF is_array_prepare_grid(1)] pos(1)]
  obtain lo0dft where lo: "times_mask (fftshift F) (pointOp mu ?log_rad ?YIrcos ?Xrcos) = Inr lo0dft"
      "is_array H W lo0dft" by blast
  from times_mask_same [OF sh is_array_pointOp [OF is_array_prepare_grid(1)] pos(1)]
  obtain hi0dft where hi: "times_mask (fftshift F) (pointOp mu ?log_rad ?Yrcos ?Xrcos) = Inr hi0dft"
      "is_array H W hi0dft" by blast
  from ifft2_same [OF is_array_ifftshift [OF hi(2)] pos] obtain hi0
    where hi0: "ifft2 (ifftshift hi0dft) = Inr hi0" "is_array H W hi0" by blast
  from build_levels_success [OF lo(2) is_array_prepare_grid pos nb, of mu mu mu ?Xrcos ?Yrcos "height self - 1"]
  obtain coeff where coeff:
      "build_levels mu self lo0dft ?log_rad ?angle ?Xrcos ?Yrcos (height self - 1) = Inr coeff"
      "length coeff = nat (max (height self - 1) 1)" "levels_ok (nbands self) H W coeff"
    by blast
  have len: "length coeff = nat (height self - 1)" using coeff(2) h by (simp add: max_def)
  have full: "length (Real_array (real_part hi0) # coeff) = nat (height self)"
    using len h by simp
  have "build mu self im = set_levels (new_pyramid (height self) (nbands self)) 0
          (Real_array (real_part hi0) # coeff)"
    unfolding build_def Let_def shape fst_conv snd_conv mhp bind_err_Inr
    using mx by (simp only: F(1) lo(1) hi(1) hi0(1) coeff(1) bind_err_Inr simp_thms if_False)
  also have "\<dots> = Inr \<lparr> pyr_height = height self, pyr_nbands = nbands self,
                        pyr_coeff = map Some (Real_array (real_part hi0) # coeff) \<rparr>"
    using full by (rule set_levels_new_pyramid)
  finally show ?thesis
    using is_array_real_part [OF hi0(2)] len coeff(3) by blast
qed


subsection \<open>The assertion on the height\<close>

lemma build_refused:
  assumes "is_array H W im" "0 < H" "0 < W"
    and "\<lfloor>log 2 (real (min H W))\<rfloor> - 2 < height self"
  shows "build mu self im = Inl (AssertionError ''Cannot buid pyramid heigher than {} levels'')"
proof -
  have shape: "np_shape im = (H, W)" using assms(1,2) by (rule np_shape_is_array)
  have mhp: "max_height_pyr W H = Inr (\<lfloor>log 2 (real (min H W))\<rfloor> - 2)"
    using assms(2,3) by (simp add: max_height_pyr_def min.commute)
  show ?thesis
    unfolding build_def Let_def shape fst_conv snd_conv mhp bind_err_Inr
    using assms(4) by simp
qed

lemma build_admitted_error:
  assumes "is_array H W im" "0 < H" "0 < W"
    and "height self \<le> \<lfloor>log 2 (real (min H W))\<rfloor> - 2"
    and "build mu self im = Inl e"
  shows "e = ValueError \<or> e = IndexError"
proof -
  have shape: "np_shape im = (H, W)" using assms(1,2) by (rule np_shape_is_array)
  have mhp: "max_height_pyr W H = Inr (\<lfloor>log 2 (real (min H W))\<rfloor> - 2)"
    using assms(2,3) by (simp add: max_height_pyr_def min.commute)
  from assms(5) show ?thesis
    unfolding build_def Let_def shape fst_conv snd_conv mhp bind_err_Inr
    using assms(4)
    by (auto simp: bind_err_Inl_iff
        dest: fft2_error times_mask_error build_levels_error ifft2_error set_levels_error set_level_error)
qed

text \<open>
  Claim C3. On a non-empty two-dimensional image of shape \<open>H \<times> W\<close>, \<^verbatim>\<open>build\<close> fails with
  the assertion on the height if \<open>height > \<lfloor>log\<^sub>2 (min H W)\<rfloor> - 2\<close>, and the result is the
  error, not a pyramid; if the height is not larger than that bound, \<^verbatim>\<open>build\<close> raises no
  AssertionError.
\<close>

theorem build_height_check:
  assumes "is_array H W im" "0 < H" "0 < W"
  shows "(\<lfloor>log 2 (real (min H W))\<rfloor> - 2 < height self \<longrightarrow>
            build mu self im = Inl (AssertionError ''Cannot buid pyramid heigher than {} levels''))
       \<and> (height self \<le> \<lfloor>log 2 (real (min H W))\<rfloor> - 2 \<longrightarrow>
            (\<forall>m. build mu self im \<noteq> Inl (AssertionError m)))"
proof (intro conjI impI allI)
  assume "\<lfloor>log 2 (real (min H W))\<rfloor> - 2 < height self"
  with assms show "build mu self im = Inl (AssertionError ''Cannot buid pyramid heigher than {} levels'')"
    by (rule build_refused)
next
  fix m
  assume ok: "height self \<le> \<lfloor>log 2 (real (min H W))\<rfloor> - 2"
  show "build mu self im \<noteq> Inl (AssertionError m)"
  proof
    assume "build mu self im = Inl (AssertionError m)"
    with assms ok have "AssertionError m = ValueError \<or> AssertionError m = IndexError"
      by (rule build_admitted_error)
    then show False by simp
  qed
qed

lemma is_array_replicate: "is_array r c (replicate r (replicate c x))"
  by (simp add: is_array_def)

lemma floor_log2_32: "\<lfloor>log 2 (real (min 32 32))\<rfloor> = 5"
proof -
  have "log 2 (2 ^ 5) = (5::real)" by (simp only: log_pow_cancel)
  then show ?thesis by simp
qed

theorem build_height_check_witness:
  "build flat_utils \<lparr> nbands = 4, height = 8, scale_factor = 2 \<rparr> (replicate 32 (replicate 32 0))
     = Inl (AssertionError ''Cannot buid pyramid heigher than {} levels'')
   \<and> (\<forall>m. build flat_utils \<lparr> nbands = 4, height = 3, scale_factor = 2 \<rparr> (replicate 32 (replicate 32 0))
          \<noteq> Inl (AssertionError m))"
  using build_height_check [of 32 32 "replicate 32 (replicate 32 0)"
          "\<lparr> nbands = 4, height = 8, scale_factor = 2 \<rparr>" flat_utils]
        build_height_check [of 32 32 "replicate 32 (replicate 32 0)"
          "\<lparr> nbands = 4, height = 3, scale_factor = 2 \<rparr>" flat_utils]
  by (simp only: is_array_replicate floor_log2_32) simp


subsection \<open>The levels of the pyramid\<close>

lemma admitted_height_min:
  assumes "0 < H" "0 < W" "2 \<le> h" "h \<le> \<lfloor>log 2 (real (min H W))\<rfloor> - 2"
  shows "2 ^ (nat h + 2) \<le> H" "2 ^ (nat h + 2) \<le> W"
proof -
  have "2 ^ (nat h + 2) \<le> min H W" using assms(3,4) by (rule admitted_height)
  then show "2 ^ (nat h + 2) \<le> H" "2 ^ (nat h + 2) \<le> W" by simp_all
qed

lemma level_axis_pos: "0 < d \<Longrightarrow> 0 < level_axis k d"
  by (induction k) (simp_all add: level_axis_Suc cropped_pos)

lemma level_axis_less:
  assumes "2 ^ (n + 2) \<le> d" "k + 3 \<le> n"
  shows "level_axis (Suc k) d < level_axis k d"
proof -
  have "(2::nat) ^ (1 + k) \<le> 2 ^ (n + 2)" using assms(2) by (intro power_increasing) simp_all
  with assms(1) have "(2::nat) ^ (1 + k) \<le> d" by simp
  then have "2 ^ 1 \<le> level_axis k d" by (rule level_axis_lower)
  then show ?thesis unfolding level_axis_Suc by (intro cropped_less) simp
qed


lemma build_levels_shapes:
  assumes im: "is_array H W im" and pos: "0 < H" "0 < W"
    and h: "2 \<le> height self" and nb: "1 \<le> nbands self"
    and mx: "height self \<le> \<lfloor>log 2 (real (min H W))\<rfloor> - 2"
  shows "\<exists>pyr. build mu self im = Inr pyr \<and> pyr_nbands pyr = nbands self \<and>
          length (pyr_coeff pyr) = nat (height self) \<and>
          (\<exists>hi. pyr_coeff pyr ! 0 = Some (Real_array hi) \<and> is_array H W hi) \<and>
          (\<forall>k. 1 \<le> k \<and> k + 2 \<le> nat (height self) \<longrightarrow>
             (\<exists>bs. pyr_coeff pyr ! k = Some (Orientations bs) \<and> length bs = nat (nbands self) \<and>
                   list_all (is_array (level_axis (k - 1) H) (level_axis (k - 1) W)) bs)) \<and>
          (\<exists>lo. pyr_coeff pyr ! (nat (height self) - 1) = Some (Real_array lo) \<and>
                is_array (level_axis (nat (height self) - 2) H) (level_axis (nat (height self) - 2) W) lo)"
proof -
  from build_success [OF assms, of mu] obtain hi coeff
    where b0: "build mu self im = Inr \<lparr> pyr_height = height self, pyr_nbands = nbands self,
                                        pyr_coeff = map Some (Real_array hi # coeff) \<rparr>"
      and hi: "is_array H W hi" and len: "length coeff = nat (height self - 1)"
      and ok: "levels_ok (nbands self) H W coeff"
    by blast
  define pyr where "pyr = \<lparr> pyr_height = height self, pyr_nbands = nbands self,
                 pyr_coeff = map Some (Real_array hi # coeff) \<rparr>"
  have b: "build mu self im = Inr pyr" unfolding pyr_def by (rule b0)
  have c: "pyr_coeff pyr = Some (Real_array hi) # map Some coeff" by (simp add: pyr_def)
  have n: "pyr_nbands pyr = nbands self" by (simp add: pyr_def)
  note nth = levels_ok_nth [OF ok]
  have l: "length (pyr_coeff pyr) = nat (height self)" unfolding c using len h by simp
  have z: "pyr_coeff pyr ! 0 = Some (Real_array hi)" unfolding c by simp
  have bands: "\<exists>bs. pyr_coeff pyr ! k = Some (Orientations bs) \<and> length bs = nat (nbands self) \<and>
                   list_all (is_array (level_axis (k - 1) H) (level_axis (k - 1) W)) bs"
    if k: "1 \<le> k \<and> k + 2 \<le> nat (height self)" for k
  proof -
    from k obtain j where kj: "k = Suc j" by (cases k) auto
    have j: "Suc j < length coeff" using k len unfolding kj by simp
    with nth obtain bs where bs: "coeff ! j = Orientations bs" "length bs = nat (nbands self)"
        "list_all (is_array (level_axis j H) (level_axis j W)) bs" by blast
    have "pyr_coeff pyr ! k = Some (Orientations bs)"
      unfolding c kj using j bs(1) by simp
    moreover have "k - 1 = j" using kj by simp
    ultimately show ?thesis using bs(2,3) by blast
  qed
  from nth obtain lo where lo: "coeff ! (length coeff - 1) = Real_array lo"
      "is_array (level_axis (length coeff - 1) H) (level_axis (length coeff - 1) W) lo" by blast
  have e: "length coeff - 1 = nat (height self) - 2" using len by simp
  have s: "nat (height self) - 1 = Suc (length coeff - 1)" using len h by simp
  have lt: "length coeff - 1 < length coeff" using len h by simp
  have last: "pyr_coeff pyr ! (nat (height self) - 1) = Some (Real_array lo)"
    unfolding c s using lt lo(1) by simp
  have shape: "is_array (level_axis (nat (height self) - 2) H) (level_axis (nat (height self) - 2) W) lo"
    using lo(2) unfolding e .
  show ?thesis
  proof (intro exI [of _ pyr] conjI)
    show "build mu self im = Inr pyr" by (rule b)
    show "pyr_nbands pyr = nbands self" by (rule n)
    show "length (pyr_coeff pyr) = nat (height self)" by (rule l)
    show "\<exists>hi. pyr_coeff pyr ! 0 = Some (Real_array hi) \<and> is_array H W hi"
      using z hi by blast
    show "\<forall>k. 1 \<le> k \<and> k + 2 \<le> nat (height self) \<longrightarrow>
             (\<exists>bs. pyr_coeff pyr ! k = Some (Orientations bs) \<and> length bs = nat (nbands self) \<and>
                   list_all (is_array (level_axis (k - 1) H) (level_axis (k - 1) W)) bs)"
      using bands by blast
    show "\<exists>lo. pyr_coeff pyr ! (nat (height self) - 1) = Some (Real_array lo) \<and>
                is_array (level_axis (nat (height self) - 2) H) (level_axis (nat (height self) - 2) W) lo"
      using last shape by blast
  qed
qed


text \<open>
  Claim C8. For a non-empty image of shape \<open>H \<times> W\<close> and a valid configuration (height at
  least 2 and at most \<open>\<lfloor>log\<^sub>2 (min H W)\<rfloor> - 2\<close>, at least one band), the pyramid that
  \<^verbatim>\<open>build\<close> returns has exactly \<open>height\<close> levels; level 0 is a real array of the shape of
  the image; each level \<open>k\<close> from 1 to \<open>height - 2\<close> is a list of exactly \<open>nbands\<close> complex
  arrays of one common shape, the image shape cropped \<open>k - 1\<close> times, so that level 1 has
  the shape of level 0; the last level is a real array of the image shape cropped
  \<open>height - 2\<close> times; each crop maps an axis length \<open>d\<close> to \<open>\<lceil>(d - 0.5) / 2\<rceil>\<close>; and the
  axis lengths strictly decrease from level \<open>k\<close> to level \<open>k + 1\<close> for every
  \<open>1 \<le> k \<le> height - 2\<close>.
\<close>

theorem build_level_shapes:
  assumes "is_array H W im" "0 < H" "0 < W"
    and "2 \<le> height self" "1 \<le> nbands self"
    and "height self \<le> \<lfloor>log 2 (real (min H W))\<rfloor> - 2"
  shows "\<exists>pyr. build mu self im = Inr pyr \<and>
          length (pyr_coeff pyr) = nat (height self) \<and>
          (\<exists>hi. pyr_coeff pyr ! 0 = Some (Real_array hi) \<and> is_array H W hi) \<and>
          (\<forall>k. 1 \<le> k \<and> k + 2 \<le> nat (height self) \<longrightarrow>
             (\<exists>bs. pyr_coeff pyr ! k = Some (Orientations bs) \<and> length bs = nat (nbands self) \<and>
                   list_all (is_array (level_axis (k - 1) H) (level_axis (k - 1) W)) bs)) \<and>
          (\<exists>lo. pyr_coeff pyr ! (nat (height self) - 1) = Some (Real_array lo) \<and>
                is_array (level_axis (nat (height self) - 2) H) (level_axis (nat (height self) - 2) W) lo) \<and>
          (\<forall>k. level_axis (Suc k) H = nat \<lceil>(real (level_axis k H) - 1 / 2) / 2\<rceil> \<and>
               level_axis (Suc k) W = nat \<lceil>(real (level_axis k W) - 1 / 2) / 2\<rceil>) \<and>
          (\<forall>k. k + 3 \<le> nat (height self) \<longrightarrow>
               level_axis (Suc k) H < level_axis k H \<and> level_axis (Suc k) W < level_axis k W)"
proof -
  from build_levels_shapes [OF assms, of mu] obtain pyr
    where pyr: "build mu self im = Inr pyr"
      "length (pyr_coeff pyr) = nat (height self)"
      "\<exists>hi. pyr_coeff pyr ! 0 = Some (Real_array hi) \<and> is_array H W hi"
      "\<forall>k. 1 \<le> k \<and> k + 2 \<le> nat (height self) \<longrightarrow>
             (\<exists>bs. pyr_coeff pyr ! k = Some (Orientations bs) \<and> length bs = nat (nbands self) \<and>
                   list_all (is_array (level_axis (k - 1) H) (level_axis (k - 1) W)) bs)"
      "\<exists>lo. pyr_coeff pyr ! (nat (height self) - 1) = Some (Real_array lo) \<and>
                is_array (level_axis (nat (height self) - 2) H) (level_axis (nat (height self) - 2) W) lo"
    by blast
  have crop: "\<forall>k. level_axis (Suc k) H = nat \<lceil>(real (level_axis k H) - 1 / 2) / 2\<rceil> \<and>
               level_axis (Suc k) W = nat \<lceil>(real (level_axis k W) - 1 / 2) / 2\<rceil>"
    by (simp only: level_axis_Suc cropped_ceiling simp_thms)
  note big = admitted_height_min [OF assms(2,3,4,6)]
  have less: "\<forall>k. k + 3 \<le> nat (height self) \<longrightarrow>
               level_axis (Suc k) H < level_axis k H \<and> level_axis (Suc k) W < level_axis k W"
    using level_axis_less [OF big(1)] level_axis_less [OF big(2)] by blast
  show ?thesis
  proof (intro exI [of _ pyr] conjI)
    show "build mu self im = Inr pyr" by (rule pyr(1))
    show "length (pyr_coeff pyr) = nat (height self)" by (rule pyr(2))
    show "\<exists>hi. pyr_coeff pyr ! 0 = Some (Real_array hi) \<and> is_array H W hi" by (rule pyr(3))
    show "\<forall>k. 1 \<le> k \<and> k + 2 \<le> nat (height self) \<longrightarrow>
             (\<exists>bs. pyr_coeff pyr ! k = Some (Orientations bs) \<and> length bs = nat (nbands self) \<and>
                   list_all (is_array (level_axis (k - 1) H) (level_axis (k - 1) W)) bs)"
      by (rule pyr(4))
    show "\<exists>lo. pyr_coeff pyr ! (nat (height self) - 1) = Some (Real_array lo) \<and>
                is_array (level_axis (nat (height self) - 2) H) (level_axis (nat (height self) - 2) W) lo"
      by (rule pyr(5))
    show "\<forall>k. level_axis (Suc k) H = nat \<lceil>(real (level_axis k H) - 1 / 2) / 2\<rceil> \<and>
               level_axis (Suc k) W = nat \<lceil>(real (level_axis k W) - 1 / 2) / 2\<rceil>"
      by (rule crop)
    show "\<forall>k. k + 3 \<le> nat (height self) \<longrightarrow>
               level_axis (Suc k) H < level_axis k H \<and> level_axis (Suc k) W < level_axis k W"
      by (rule less)
  qed
qed


lemma level_axis_1_32: "level_axis (Suc 0) 32 = 16"
  by (simp add: level_axis_Suc cropped_eq)

theorem build_level_shapes_witness:
  "\<exists>pyr hi bs lo.
     build flat_utils \<lparr> nbands = 4, height = 3, scale_factor = 2 \<rparr> (replicate 32 (replicate 32 0)) = Inr pyr \<and>
     pyr_coeff pyr = [Some (Real_array hi), Some (Orientations bs), Some (Real_array lo)] \<and>
     is_array 32 32 hi \<and> length bs = 4 \<and> list_all (is_array 32 32) bs \<and> is_array 16 16 lo \<and>
     level_axis 1 32 < level_axis 0 32"
proof -
  let ?self = "\<lparr> nbands = 4, height = 3, scale_factor = 2 \<rparr>"
  let ?im = "replicate 32 (replicate 32 (0::real))"
  have hyp: "is_array 32 32 ?im" "(0::nat) < 32" "2 \<le> height ?self" "1 \<le> nbands ?self"
      "height ?self \<le> \<lfloor>log 2 (real (min 32 32))\<rfloor> - 2"
    by (simp_all only: is_array_replicate floor_log2_32) simp_all
  note t = build_level_shapes [OF hyp(1,2,2,3,4,5), of flat_utils]
  from t obtain pyr where p: "build flat_utils ?self ?im = Inr pyr \<and>
          length (pyr_coeff pyr) = nat (height ?self) \<and>
          (\<exists>hi. pyr_coeff pyr ! 0 = Some (Real_array hi) \<and> is_array 32 32 hi) \<and>
          (\<forall>k. 1 \<le> k \<and> k + 2 \<le> nat (height ?self) \<longrightarrow>
             (\<exists>bs. pyr_coeff pyr ! k = Some (Orientations bs) \<and> length bs = nat (nbands ?self) \<and>
                   list_all (is_array (level_axis (k - 1) 32) (level_axis (k - 1) 32)) bs)) \<and>
          (\<exists>lo. pyr_coeff pyr ! (nat (height ?self) - 1) = Some (Real_array lo) \<and>
                is_array (level_axis (nat (height ?self) - 2) 32) (level_axis (nat (height ?self) - 2) 32) lo) \<and>
          (\<forall>k. level_axis (Suc k) 32 = nat \<lceil>(real (level_axis k 32) - 1 / 2) / 2\<rceil> \<and>
               level_axis (Suc k) 32 = nat \<lceil>(real (level_axis k 32) - 1 / 2) / 2\<rceil>) \<and>
          (\<forall>k. k + 3 \<le> nat (height ?self) \<longrightarrow>
               level_axis (Suc k) 32 < level_axis k 32 \<and> level_axis (Suc k) 32 < level_axis k 32)" ..
  note p1 = p [THEN conjunct1]
  note p2 = p [THEN conjunct2, THEN conjunct1]
  note p3 = p [THEN conjunct2, THEN conjunct2, THEN conjunct1]
  note p4 = p [THEN conjunct2, THEN conjunct2, THEN conjunct2, THEN conjunct1]
  note p5 = p [THEN conjunct2, THEN conjunct2, THEN conjunct2, THEN conjunct2, THEN conjunct1]
  note p7 = p [THEN conjunct2, THEN conjunct2, THEN conjunct2, THEN conjunct2, THEN conjunct2,
               THEN conjunct2]
  from p3 obtain hi where hi: "pyr_coeff pyr ! 0 = Some (Real_array hi)" "is_array 32 32 hi"
    by blast
  have "\<exists>bs. pyr_coeff pyr ! 1 = Some (Orientations bs) \<and> length bs = 4 \<and>
          list_all (is_array 32 32) bs"
    using p4 [rule_format, of 1] by simp
  then obtain bs where bs: "pyr_coeff pyr ! 1 = Some (Orientations bs)" "length bs = 4"
      "list_all (is_array 32 32) bs"
    by blast
  have "\<exists>lo. pyr_coeff pyr ! 2 = Some (Real_array lo) \<and> is_array 16 16 lo"
    using p5 by (simp add: level_axis_1_32)
  then obtain lo where lo: "pyr_coeff pyr ! 2 = Some (Real_array lo)" "is_array 16 16 lo"
    by blast
  have less: "level_axis 1 32 < level_axis 0 32"
    using p7 [rule_format, of 0] by simp
  have "length (pyr_coeff pyr) = 3" using p2 by simp
  then obtain a b c where abc: "pyr_coeff pyr = [a, b, c]"
    by (auto simp: length_Suc_conv numeral_3_eq_3)
  have "pyr_coeff pyr = [Some (Real_array hi), Some (Orientations bs), Some (Real_array lo)]"
    using hi(1) bs(1) lo(1) unfolding abc by simp
  with p1 hi(2) bs(2,3) lo(2) less show ?thesis by blast
qed

text \<open>
  Claim C8 as stated fails from level 0 to level 1. The spectrum is cropped after the bands
  of a scale are computed, so on a \<open>32 \<times> 32\<close> image the four bands of level 1 have the
  shape \<open>(32, 32)\<close> of the high-pass array at level 0.
\<close>

theorem first_band_level_keeps_image_shape:
  "\<exists>pyr hi bs.
     build flat_utils \<lparr> nbands = 4, height = 3, scale_factor = 2 \<rparr> (replicate 32 (replicate 32 0)) = Inr pyr \<and>
     pyr_coeff pyr ! 0 = Some (Real_array hi) \<and> np_shape hi = (32, 32) \<and>
     pyr_coeff pyr ! 1 = Some (Orientations bs) \<and> length bs = 4 \<and>
     list_all (\<lambda>b. np_shape b = (32, 32)) bs"
proof -
  let ?self = "\<lparr> nbands = 4, height = 3, scale_factor = 2 \<rparr>"
  let ?im = "replicate 32 (replicate 32 (0::real))"
  have hyp: "is_array 32 32 ?im" "(0::nat) < 32" "2 \<le> height ?self" "1 \<le> nbands ?self"
      "height ?self \<le> \<lfloor>log 2 (real (min 32 32))\<rfloor> - 2"
    by (simp_all only: is_array_replicate floor_log2_32) simp_all
  from build_levels_shapes [OF hyp(1,2,2,3,4,5), of flat_utils]
  obtain pyr where pyr: "build flat_utils ?self ?im = Inr pyr"
      "\<exists>hi. pyr_coeff pyr ! 0 = Some (Real_array hi) \<and> is_array 32 32 hi"
      "\<forall>k. 1 \<le> k \<and> k + 2 \<le> nat (height ?self) \<longrightarrow>
             (\<exists>bs. pyr_coeff pyr ! k = Some (Orientations bs) \<and> length bs = nat (nbands ?self) \<and>
                   list_all (is_array (level_axis (k - 1) 32) (level_axis (k - 1) 32)) bs)"
    by blast
  from pyr(2) obtain hi where hi: "pyr_coeff pyr ! 0 = Some (Real_array hi)" "is_array 32 32 hi"
    by blast
  have "\<exists>bs. pyr_coeff pyr ! 1 = Some (Orientations bs) \<and> length bs = 4 \<and>
          list_all (is_array 32 32) bs"
    using pyr(3) [rule_format, of 1] by simp
  then obtain bs
    where bs: "pyr_coeff pyr ! 1 = Some (Orientations bs)" "length bs = 4"
      "list_all (is_array 32 32) bs"
    by blast
  have s: "np_shape hi = (32, 32)" using hi(2) by (rule np_shape_is_array) simp
  have "list_all (\<lambda>b. np_shape b = (32, 32)) bs"
    using bs(3) by (auto simp: list_all_iff intro: np_shape_is_array)
  with pyr(1) hi(1) s bs(1,2) show ?thesis by blast
qed


subsection \<open>The shape query\<close>

lemma get_level_nth:
  "k < length (pyr_coeff pyr) \<Longrightarrow> get_level pyr (int k) = Inr (pyr_coeff pyr ! k)"
  by (simp add: get_level_def py_index_def Let_def)

text \<open>
  Claim C9. On the pyramid that \<^verbatim>\<open>build\<close> returns for a non-empty image and a valid
  configuration, \<^verbatim>\<open>level_size\<close> returns the shape \<open>(rows, cols)\<close> of the high-pass array at
  level 0 and the common shape of the subbands at each level from 1 to \<open>height - 2\<close>; at
  level \<open>height - 1\<close> it returns the shape of the first row of the low-pass array, the
  one-element tuple \<open>(cols,)\<close>.
\<close>

theorem level_size_of_built_pyramid:
  assumes "is_array H W im" "0 < H" "0 < W"
    and "2 \<le> height self" "1 \<le> nbands self"
    and "height self \<le> \<lfloor>log 2 (real (min H W))\<rfloor> - 2"
  shows "\<exists>pyr. build mu self im = Inr pyr \<and>
          level_size pyr 0 = Inr [H, W] \<and>
          (\<forall>k. 1 \<le> k \<and> k + 2 \<le> nat (height self) \<longrightarrow>
             level_size pyr (int k) = Inr [level_axis (k - 1) H, level_axis (k - 1) W]) \<and>
          level_size pyr (height self - 1) = Inr [level_axis (nat (height self) - 2) W]"
proof -
  from build_levels_shapes [OF assms, of mu] obtain pyr
    where pyr: "build mu self im = Inr pyr" "pyr_nbands pyr = nbands self"
      "length (pyr_coeff pyr) = nat (height self)"
      "\<exists>hi. pyr_coeff pyr ! 0 = Some (Real_array hi) \<and> is_array H W hi"
      "\<forall>k. 1 \<le> k \<and> k + 2 \<le> nat (height self) \<longrightarrow>
             (\<exists>bs. pyr_coeff pyr ! k = Some (Orientations bs) \<and> length bs = nat (nbands self) \<and>
                   list_all (is_array (level_axis (k - 1) H) (level_axis (k - 1) W)) bs)"
      "\<exists>lo. pyr_coeff pyr ! (nat (height self) - 1) = Some (Real_array lo) \<and>
                is_array (level_axis (nat (height self) - 2) H) (level_axis (nat (height self) - 2) W) lo"
    by blast
  from pyr(4) obtain hi where hi: "pyr_coeff pyr ! 0 = Some (Real_array hi)" "is_array H W hi"
    by blast
  have g0: "get_level pyr (int 0) = Inr (pyr_coeff pyr ! 0)"
    using pyr(3) assms(4) by (intro get_level_nth) simp
  have s0: "np_shape hi = (H, W)" using hi(2) assms(2) by (rule np_shape_is_array)
  have zero: "level_size pyr 0 = Inr [H, W]"
    using g0 by (simp add: level_size_def hi(1) level_shape_def s0)
  have mid: "level_size pyr (int k) = Inr [level_axis (k - 1) H, level_axis (k - 1) W]"
    if k: "1 \<le> k \<and> k + 2 \<le> nat (height self)" for k
  proof -
    from pyr(5) k obtain bs where bs: "pyr_coeff pyr ! k = Some (Orientations bs)"
        "length bs = nat (nbands self)"
        "list_all (is_array (level_axis (k - 1) H) (level_axis (k - 1) W)) bs" by blast
    have ne: "bs \<noteq> []" using bs(2) assms(5) by auto
    then have "is_array (level_axis (k - 1) H) (level_axis (k - 1) W) (bs ! 0)"
      using bs(3) by (cases bs) simp_all
    then have s: "np_shape (bs ! 0) = (level_axis (k - 1) H, level_axis (k - 1) W)"
      using level_axis_pos [OF assms(2)] by (rule np_shape_is_array)
    have g: "get_level pyr (int k) = Inr (pyr_coeff pyr ! k)"
      using pyr(3) k by (intro get_level_nth) simp
    from k have "int k \<noteq> 0" by simp
    then show ?thesis
      by (simp add: level_size_def g bs(1) first_shape_def ne s)
  qed
  from pyr(6) obtain lo where lo: "pyr_coeff pyr ! (nat (height self) - 1) = Some (Real_array lo)"
      "is_array (level_axis (nat (height self) - 2) H) (level_axis (nat (height self) - 2) W) lo"
    by blast
  have i: "height self - 1 = int (nat (height self) - 1)" using assms(4) by simp
  have g: "get_level pyr (height self - 1) = Inr (pyr_coeff pyr ! (nat (height self) - 1))"
    unfolding i using pyr(3) assms(4) by (intro get_level_nth) simp
  have rows: "0 < level_axis (nat (height self) - 2) H" using assms(2) by (rule level_axis_pos)
  then have ne: "lo \<noteq> []" using is_array_length [OF lo(2)] by auto
  have row: "length (lo ! 0) = level_axis (nat (height self) - 2) W"
    using lo(2) rows by (rule is_array_row)
  have fs: "first_shape (Some (Real_array lo)) = Inr [level_axis (nat (height self) - 2) W]"
    by (simp add: first_shape_def ne row)
  have "height self - 1 \<noteq> 0" using assms(4) by simp
  then have last: "level_size pyr (height self - 1) = Inr [level_axis (nat (height self) - 2) W]"
    unfolding level_size_def g lo(1) bind_err_Inr fs by simp
  from pyr(1) zero mid last show ?thesis by blast
qed

lemma floor_log2_16: "\<lfloor>log 2 (real (min 16 16))\<rfloor> = 4"
proof -
  have "log 2 (2 ^ 4) = (4::real)" by (simp only: log_pow_cancel)
  then show ?thesis by simp
qed

theorem level_size_of_built_pyramid_witness:
  "\<exists>pyr. build flat_utils \<lparr> nbands = 4, height = 2, scale_factor = 2 \<rparr> (replicate 16 (replicate 16 0)) = Inr pyr \<and>
     level_size pyr 0 = Inr [16, 16] \<and> level_size pyr 1 = Inr [16]"
proof -
  let ?self = "\<lparr> nbands = 4, height = 2, scale_factor = 2 \<rparr>"
  let ?im = "replicate 16 (replicate 16 (0::real))"
  have hyp: "is_array 16 16 ?im" "(0::nat) < 16" "2 \<le> height ?self" "1 \<le> nbands ?self"
      "height ?self \<le> \<lfloor>log 2 (real (min 16 16))\<rfloor> - 2"
    by (simp_all only: is_array_replicate floor_log2_16) simp_all
  from level_size_of_built_pyramid [OF hyp(1,2,2,3,4,5), of flat_utils]
  show ?thesis by simp
qed


subsection \<open>Reconstruction from the pyramid object\<close>

text \<open>
  Claim C1. For a non-empty image of shape \<open>H \<times> W\<close> with \<open>H, W \<ge> 2 ^ (height + 2)\<close> and a valid
  configuration, \<^verbatim>\<open>build\<close> returns a pyramid object, and \<^verbatim>\<open>reconstruct\<close> applied to that
  object raises TypeError at \<^verbatim>\<open>coeff[1]\<close>: no image comes back.
\<close>

theorem reconstruct_of_build:
  assumes "is_array H W im" "0 < H" "0 < W"
    and "2 \<le> height self" "1 \<le> nbands self"
    and "2 ^ (nat (height self) + 2) \<le> min H W"
  shows "\<exists>pyr. build mu self im = Inr pyr \<and>
               reconstruct mu self (Pyramid_object pyr) = Inl TypeError"
proof -
  have m: "0 < min H W" using assms(2,3) by simp
  have "int (nat (height self) + 2) \<le> \<lfloor>log 2 (real (min H W))\<rfloor>"
    using assms(6) by (simp only: le_floor_log2_iff [OF m])
  moreover have "int (nat (height self) + 2) = height self + 2" using assms(4) by simp
  ultimately have mx: "height self \<le> \<lfloor>log 2 (real (min H W))\<rfloor> - 2" by simp
  from build_success [OF assms(1-5) mx, of mu] obtain pyr where "build mu self im = Inr pyr"
    by blast
  then show ?thesis by (simp add: reconstruct_def reconstruct_transform_def)
qed

theorem reconstruct_of_build_witness:
  "\<exists>pyr. build flat_utils \<lparr> nbands = 4, height = 2, scale_factor = 2 \<rparr> (replicate 16 (replicate 16 0)) = Inr pyr \<and>
     reconstruct flat_utils \<lparr> nbands = 4, height = 2, scale_factor = 2 \<rparr> (Pyramid_object pyr) = Inl TypeError"
proof -
  let ?self = "\<lparr> nbands = 4, height = 2, scale_factor = 2 \<rparr>"
  let ?im = "replicate 16 (replicate 16 (0::real))"
  have hyp: "is_array 16 16 ?im" "(0::nat) < 16" "2 \<le> height ?self" "1 \<le> nbands ?self"
      "2 ^ (nat (height ?self) + 2) \<le> min (16::nat) 16"
    by (simp_all only: is_array_replicate) simp_all
  from reconstruct_of_build [OF hyp(1,2,2,3,4,5), of flat_utils]
  show ?thesis by simp
qed

section \<open>The two backends\<close>

lemma torch_build_raises: "\<exists>e. torch_build api mu self im_batch = Inl e"
proof -
  have b: "\<exists>e. bind_err r (\<lambda>x. Inl (f x)) = Inl e" for r :: "py_error + 'a" and f :: "'a \<Rightarrow> py_error"
    by (cases r) simp_all
  have c: "\<exists>e. bind_err r g = Inl e" if "\<And>x. \<exists>e. g x = Inl e"
    for r :: "py_error + 'a" and g :: "'a \<Rightarrow> py_error + level list"
    using that by (cases r) simp_all
  show ?thesis
    unfolding torch_build_def Let_def
    by (auto intro!: c b)
qed

lemma torch_build_attribute_error:
  assumes "0 < H" "0 < W" "torch_height self \<le> \<lfloor>log 2 (real (min H W))\<rfloor> - 2"
    and "\<And>m. \<exists>t. mask_to_device api (torch_device self) m = Inr t"
    and "\<exists>d. rfft api \<lparr> batch_dtype = Float32, batch_shape = [N, H, W], batch_entries = ims \<rparr> = Inr d"
  shows "torch_build api mu self \<lparr> batch_dtype = Float32, batch_shape = [N, H, W], batch_entries = ims \<rparr>
           = Inl (AttributeError ''fftshift'')"
proof -
  let ?b = "\<lparr> batch_dtype = Float32, batch_shape = [N, H, W], batch_entries = ims \<rparr>"
  have mhp: "max_height_pyr W H = Inr (\<lfloor>log 2 (real (min H W))\<rfloor> - 2)"
    using assms(1,2) by (simp add: max_height_pyr_def min.commute)
  have m: "bind_err (mask_to_device api (torch_device self) a) g = Inl (AttributeError ''fftshift'')"
    if "\<And>x. g x = Inl (AttributeError ''fftshift'')"
    for a and g :: "real list list \<Rightarrow> py_error + level list"
  proof -
    from assms(4) [of a] obtain t where "mask_to_device api (torch_device self) a = Inr t" by blast
    then show ?thesis by (simp add: that)
  qed
  from assms(5) obtain d where d: "rfft api ?b = Inr d" by blast
  show ?thesis
    unfolding torch_build_def Let_def
    using assms(3) by (simp add: mhp d m)
qed

text \<open>
  Claim C2. For a non-empty image and a valid configuration the NumPy builder returns a
  pyramid. The PyTorch builder, constructed with the same arguments and given the same
  image as a batch of one float32 image, returns no coefficients, whatever torch does: it
  raises, and when the calls into torch return, the error is the AttributeError of
  \<^verbatim>\<open>fft_utils.fftshift\<close>.
\<close>

theorem numpy_build_returns_pytorch_build_raises:
  assumes "is_array H W im" "0 < H" "0 < W"
    and "2 \<le> height self" "1 \<le> nbands self"
    and "height self \<le> \<lfloor>log 2 (real (min H W))\<rfloor> - 2"
  shows "(\<exists>pyr. build mu self im = Inr pyr)
       \<and> (\<exists>e. torch_build api mu
                 \<lparr> torch_nbands = nbands self, torch_height = height self,
                   torch_scale_factor = scale_factor self, torch_device = device \<rparr>
                 \<lparr> batch_dtype = Float32, batch_shape = [1, H, W], batch_entries = [im] \<rparr> = Inl e)
       \<and> ((\<forall>m. \<exists>t. mask_to_device api device m = Inr t) \<and>
          (\<exists>d. rfft api \<lparr> batch_dtype = Float32, batch_shape = [1, H, W], batch_entries = [im] \<rparr> = Inr d)
          \<longrightarrow> torch_build api mu
                 \<lparr> torch_nbands = nbands self, torch_height = height self,
                   torch_scale_factor = scale_factor self, torch_device = device \<rparr>
                 \<lparr> batch_dtype = Float32, batch_shape = [1, H, W], batch_entries = [im] \<rparr>
               = Inl (AttributeError ''fftshift''))"
proof (intro conjI impI)
  from build_success [OF assms, of mu] show "\<exists>pyr. build mu self im = Inr pyr" by blast
next
  show "\<exists>e. torch_build api mu
                 \<lparr> torch_nbands = nbands self, torch_height = height self,
                   torch_scale_factor = scale_factor self, torch_device = device \<rparr>
                 \<lparr> batch_dtype = Float32, batch_shape = [1, H, W], batch_entries = [im] \<rparr> = Inl e"
    by (rule torch_build_raises)
next
  let ?self = "\<lparr> torch_nbands = nbands self, torch_height = height self,
                   torch_scale_factor = scale_factor self, torch_device = device \<rparr>"
  assume ok: "(\<forall>m. \<exists>t. mask_to_device api device m = Inr t) \<and>
          (\<exists>d. rfft api \<lparr> batch_dtype = Float32, batch_shape = [1, H, W], batch_entries = [im] \<rparr> = Inr d)"
  have h: "torch_height ?self \<le> \<lfloor>log 2 (real (min H W))\<rfloor> - 2" using assms(6) by simp
  have m: "\<And>m. \<exists>t. mask_to_device api (torch_device ?self) m = Inr t" using ok by simp
  from ok have d: "\<exists>d. rfft api \<lparr> batch_dtype = Float32, batch_shape = [1, H, W], batch_entries = [im] \<rparr> = Inr d"
    by blast
  show "torch_build api mu ?self
          \<lparr> batch_dtype = Float32, batch_shape = [1, H, W], batch_entries = [im] \<rparr>
        = Inl (AttributeError ''fftshift'')"
    using assms(2,3) h m d by (rule torch_build_attribute_error)
qed

theorem numpy_build_returns_pytorch_build_raises_witness:
  "(\<exists>pyr. build flat_utils \<lparr> nbands = 4, height = 2, scale_factor = 2 \<rparr> (replicate 16 (replicate 16 0)) = Inr pyr)
   \<and> torch_build cpu_torch flat_utils
        \<lparr> torch_nbands = 4, torch_height = 2, torch_scale_factor = 2, torch_device = ''cpu'' \<rparr>
        \<lparr> batch_dtype = Float32, batch_shape = [1, 16, 16],
          batch_entries = [replicate 16 (replicate 16 0)] \<rparr>
      = Inl (AttributeError ''fftshift'')"
proof -
  let ?self = "\<lparr> nbands = 4, height = 2, scale_factor = 2 \<rparr>"
  let ?im = "replicate 16 (replicate 16 (0::real))"
  have hyp: "is_array 16 16 ?im" "(0::nat) < 16" "2 \<le> height ?self" "1 \<le> nbands ?self"
      "height ?self \<le> \<lfloor>log 2 (real (min 16 16))\<rfloor> - 2"
    by (simp_all only: is_array_replicate floor_log2_16) simp_all
  from numpy_build_returns_pytorch_build_raises [OF hyp(1,2,2,3,4,5), of flat_utils cpu_torch "''cpu''"]
  show ?thesis by (simp add: cpu_torch_def)
qed

end
